theory Spec2Isabelle
  imports Complex_Main
begin

section \<open>JavaScript values\<close>

text \<open>
  The repository is JavaScript: form values, event payloads and field defaults are
  dynamically typed. A number is a double: \<open>NaN\<close>, the two infinities, or a
  finite value, which is a real number. Strings are lists of 8-bit characters (the
  code units below 256). An object value is a list of bindings whose first binding of
  a key is the property's value; a built-in function is known by its name.
\<close>

datatype jsnum = NaN | NegInf | Fin real | PosInf

datatype jsval =
    Undefined
  | Null
  | JBool bool
  | JNum jsnum
  | JStr string
  | JObj "(string \<times> jsval) list"
  | JFun string

text \<open>The relational operator \<open>a < b\<close> on numbers: false as soon as one side is \<open>NaN\<close>.\<close>

fun js_lt :: "jsnum \<Rightarrow> jsnum \<Rightarrow> bool" where
  "js_lt NaN _ = False"
| "js_lt _ NaN = False"
| "js_lt (Fin a) (Fin b) = (a < b)"
| "js_lt NegInf NegInf = False"
| "js_lt NegInf _ = True"
| "js_lt _ NegInf = False"
| "js_lt PosInf _ = False"
| "js_lt _ PosInf = True"

text \<open>\<open>a > b\<close> is \<open>b < a\<close>.\<close>

definition js_gt :: "jsnum \<Rightarrow> jsnum \<Rightarrow> bool" where
  "js_gt a b = js_lt b a"

text \<open>Truthiness (\<open>if (v)\<close>, \<open>v || w\<close>): the falsy values are \<open>undefined\<close>,
  \<open>null\<close>, \<open>false\<close>, \<open>0\<close>, \<open>NaN\<close> and the empty string.\<close>

fun truthyNum :: "jsnum \<Rightarrow> bool" where
  "truthyNum NaN = False"
| "truthyNum (Fin r) = (r \<noteq> 0)"
| "truthyNum _ = True"

fun truthy :: "jsval \<Rightarrow> bool" where
  "truthy Undefined = False"
| "truthy Null = False"
| "truthy (JBool b) = b"
| "truthy (JNum n) = truthyNum n"
| "truthy (JStr s) = (s \<noteq> [])"
| "truthy (JObj _) = True"
| "truthy (JFun _) = True"

text \<open>An optional property of an object literal: \<open>None\<close> when the key is absent
  (reading it gives \<open>undefined\<close>).\<close>

definition truthyNumOpt :: "jsnum option \<Rightarrow> bool" where
  "truthyNumOpt n = (case n of None \<Rightarrow> False | Some x \<Rightarrow> truthyNum x)"

definition truthyStrOpt :: "string option \<Rightarrow> bool" where
  "truthyStrOpt s = (case s of None \<Rightarrow> False | Some x \<Rightarrow> x \<noteq> [])"

text \<open>
  A plain object (\<open>{}\<close>, an object literal, a spread) is the map of its own
  properties; its prototype is \<open>Object.prototype\<close>, whose members are these.
\<close>

definition objectPrototypeNames :: "string list" where
  "objectPrototypeNames =
     [''constructor'', ''__defineGetter__'', ''__defineSetter__'', ''hasOwnProperty'',
      ''__lookupGetter__'', ''__lookupSetter__'', ''isPrototypeOf'', ''propertyIsEnumerable'',
      ''toString'', ''valueOf'', ''__proto__'', ''toLocaleString'']"

text \<open>What a plain object without the own key \<open>k\<close> gives for \<open>obj[k]\<close>: the
  member of \<open>Object.prototype\<close> (a function; the prototype object itself for
  \<open>__proto__\<close>), or \<open>undefined\<close>.\<close>

definition inherited :: "string \<Rightarrow> jsval" where
  "inherited k =
    (if k = ''__proto__'' then JObj []
     else if k = ''constructor'' then JFun ''Object''
     else if k \<in> set objectPrototypeNames then JFun k
     else Undefined)"

text \<open>Reading \<open>obj[key]\<close> from a plain object: the own property, else what is
  inherited.\<close>

definition lookup :: "(string \<rightharpoonup> jsval) \<Rightarrow> string \<Rightarrow> jsval" where
  "lookup m k = (case m k of None \<Rightarrow> inherited k | Some v \<Rightarrow> v)"

text \<open>
  The assignment \<open>obj[key] = v\<close> to a plain object that was created empty and only
  assigned to: it creates or overwrites the own property, except for the key
  \<open>__proto__\<close>, where it reaches the setter of \<open>Object.prototype\<close> and no own
  property comes to exist. (What the setter does to the prototype of the object when
  \<open>v\<close> is an object or \<open>null\<close> is outside the model, which keeps own properties.)
\<close>

definition assignProp :: "(string \<rightharpoonup> 'a) \<Rightarrow> string \<Rightarrow> 'a \<Rightarrow> (string \<rightharpoonup> 'a)" where
  "assignProp obj k v = (if k = ''__proto__'' then obj else obj(k \<mapsto> v))"

text \<open>\<open>v?.key\<close> for the keys the code reads this way (\<open>message\<close>,
  \<open>missingProperty\<close>, \<open>limit\<close>, \<open>format\<close>), none of which a prototype has:
  \<open>undefined\<close> on \<open>undefined\<close>, \<open>null\<close>, a primitive and a function.\<close>

fun getProp :: "jsval \<Rightarrow> string \<Rightarrow> jsval" where
  "getProp (JObj kvs) k = (case map_of kvs k of None \<Rightarrow> Undefined | Some v \<Rightarrow> v)"
| "getProp _ k = Undefined"

text \<open>White space as \<open>String.prototype.trim\<close> and the regular expression class
  \<open>\s\<close> see it, in the range of 8-bit code units: tab, line feed, vertical tab, form
  feed, carriage return, space and no-break space.\<close>

definition isSpace :: "char \<Rightarrow> bool" where
  "isSpace c = (of_char c \<in> {9, 10, 11, 12, 13, 32, 160 :: nat})"

definition trim :: "string \<Rightarrow> string" where
  "trim s = rev (dropWhile isSpace (rev (dropWhile isSpace s)))"

section \<open>Field definitions\<close>

text \<open>
  One entry of \<open>action.formJson\<close>. \<open>default\<close> is \<open>Undefined\<close> when the field
  declares none; every other optional property is \<open>None\<close> when absent. An option of
  a select field is a pair of its value and its label.
\<close>

record field =
  name :: string
  type :: string
  label :: "string option"
  required :: bool
  minLength :: "jsnum option"
  maxLength :: "jsnum option"
  minimum :: "jsnum option"
  maximum :: "jsnum option"
  pattern :: "string option"
  format :: "string option"
  options :: "(jsval \<times> string) list option"
  default :: jsval
  placeholder :: "string option"
  description :: "string option"

section \<open>Initial form values (formMachineFactory.js)\<close>

text \<open>
  \<^verbatim>\<open>
  function buildInitialValues(formJson) {
    const values = {}
    for (const field of formJson) {
      if (field.default !== undefined) {
        values[field.name] = field.default
      } else {
        values[field.name] = field.type === 'boolean' ? false : ''
      }
    }
    return values
  }
  \<close>
  The loop is a recursion over the field list that threads the object being filled.
\<close>

fun buildInitialValues_loop :: "field list \<Rightarrow> (string \<rightharpoonup> jsval) \<Rightarrow> (string \<rightharpoonup> jsval)" where
  "buildInitialValues_loop [] values = values"
| "buildInitialValues_loop (field # rest) values =
     buildInitialValues_loop rest
       (if default field \<noteq> Undefined
        then assignProp values (name field) (default field)
        else assignProp values (name field)
               (if type field = ''boolean'' then JBool False else JStr ''''))"

definition buildInitialValues :: "field list \<Rightarrow> (string \<rightharpoonup> jsval)" where
  "buildInitialValues formJson = buildInitialValues_loop formJson Map.empty"

section \<open>Schema compiler (shared formMachine.js)\<close>

text \<open>
  A failing call is a value: \<open>TypeError\<close> is what reading a property of
  \<open>undefined\<close> throws (\<open>field.options.map\<close> on a field without options),
  \<open>SchemaError\<close> what the schema engine throws on a schema it refuses to compile.
\<close>

datatype error = TypeError | SchemaError

text \<open>One property of the JSON schema. The source starts from the empty object and
  assigns the keys one by one, so every key is optional.\<close>

record jsprop =
  p_type :: "string option"
  p_format :: "string option"
  p_minLength :: "jsnum option"
  p_maxLength :: "jsnum option"
  p_pattern :: "string option"
  p_minimum :: "jsnum option"
  p_maximum :: "jsnum option"
  p_enum :: "jsval list option"
  p_oneOf :: "(jsval \<times> string) list option"
  p_default :: jsval
  p_title :: "string option"
  p_description :: "string option"

definition emptyProp :: jsprop where
  "emptyProp = \<lparr>p_type = None, p_format = None, p_minLength = None, p_maxLength = None,
     p_pattern = None, p_minimum = None, p_maximum = None, p_enum = None, p_oneOf = None,
     p_default = Undefined, p_title = None, p_description = None\<rparr>"

record schema =
  schema_type :: string
  properties :: "string \<rightharpoonup> jsprop"
  required_names :: "string list"

text \<open>
  The body of the loop of \<open>formJsonToJsonSchema(formJson, title = 'Form')\<close> up to the
  store into \<open>schema.properties\<close>:
  \<^verbatim>\<open>
    const prop = {}
    switch (field.type) {
      case 'string': case 'text': case 'textarea':
        prop.type = 'string'
        if (field.minLength) prop.minLength = field.minLength
        if (field.maxLength) prop.maxLength = field.maxLength
        if (field.pattern) prop.pattern = field.pattern
        break
      case 'email':
        prop.type = 'string'; prop.format = 'email'; break
      case 'number': case 'integer':
        prop.type = field.type
        if (field.minimum !== undefined) prop.minimum = field.minimum
        if (field.maximum !== undefined) prop.maximum = field.maximum
        break
      case 'select':
        prop.type = 'string'
        prop.enum = field.options.map(o => o.value)
        prop.oneOf = field.options.map(o => ({ const: o.value, title: o.label }))
        break
      case 'boolean': prop.type = 'boolean'; break
      case 'date': prop.type = 'string'; prop.format = 'date'; break
      default: prop.type = 'string'
    }
    if (field.default !== undefined) prop.default = field.default
    if (field.label) prop.title = field.label
    if (field.description) prop.description = field.description
  \<close>
\<close>

definition jsonSchemaSwitch :: "field \<Rightarrow> error + jsprop" where
  "jsonSchemaSwitch field =
    (let prop = emptyProp in
     if type field = ''string'' \<or> type field = ''text'' \<or> type field = ''textarea'' then
       (let prop = prop\<lparr>p_type := Some ''string''\<rparr>;
            prop = (if truthyNumOpt (minLength field) then prop\<lparr>p_minLength := minLength field\<rparr> else prop);
            prop = (if truthyNumOpt (maxLength field) then prop\<lparr>p_maxLength := maxLength field\<rparr> else prop);
            prop = (if truthyStrOpt (pattern field) then prop\<lparr>p_pattern := pattern field\<rparr> else prop)
        in Inr prop)
     else if type field = ''email'' then
       Inr (prop\<lparr>p_type := Some ''string'', p_format := Some ''email''\<rparr>)
     else if type field = ''number'' \<or> type field = ''integer'' then
       (let prop = prop\<lparr>p_type := Some (type field)\<rparr>;
            prop = (if minimum field \<noteq> None then prop\<lparr>p_minimum := minimum field\<rparr> else prop);
            prop = (if maximum field \<noteq> None then prop\<lparr>p_maximum := maximum field\<rparr> else prop)
        in Inr prop)
     else if type field = ''select'' then
       (case options field of
          None \<Rightarrow> Inl TypeError
        | Some opts \<Rightarrow>
            Inr (prop\<lparr>p_type := Some ''string'', p_enum := Some (map fst opts), p_oneOf := Some opts\<rparr>))
     else if type field = ''boolean'' then
       Inr (prop\<lparr>p_type := Some ''boolean''\<rparr>)
     else if type field = ''date'' then
       Inr (prop\<lparr>p_type := Some ''string'', p_format := Some ''date''\<rparr>)
     else Inr (prop\<lparr>p_type := Some ''string''\<rparr>))"

definition jsonSchemaProp :: "field \<Rightarrow> error + jsprop" where
  "jsonSchemaProp field =
    (case jsonSchemaSwitch field of
       Inl e \<Rightarrow> Inl e
     | Inr prop \<Rightarrow>
        (let prop = (if default field \<noteq> Undefined then prop\<lparr>p_default := default field\<rparr> else prop);
             prop = (if truthyStrOpt (label field) then prop\<lparr>p_title := label field\<rparr> else prop);
             prop = (if truthyStrOpt (description field) then prop\<lparr>p_description := description field\<rparr> else prop)
         in Inr prop))"

text \<open>
  The loop itself: \<open>schema.properties[field.name] = prop\<close>, then
  \<open>if (field.required) schema.required.push(field.name)\<close>. An exception leaves the
  loop and the function.
\<close>

fun formJsonToJsonSchema_loop :: "field list \<Rightarrow> schema \<Rightarrow> error + schema" where
  "formJsonToJsonSchema_loop [] schema = Inr schema"
| "formJsonToJsonSchema_loop (field # rest) schema =
     (case jsonSchemaProp field of
        Inl e \<Rightarrow> Inl e
      | Inr prop \<Rightarrow>
          formJsonToJsonSchema_loop rest
            (let schema = schema\<lparr>properties := (properties schema)(name field \<mapsto> prop)\<rparr>
             in if required field
                then schema\<lparr>required_names := required_names schema @ [name field]\<rparr>
                else schema))"

text \<open>The parameter \<open>title\<close> is never read by the source.\<close>

definition formJsonToJsonSchema :: "field list \<Rightarrow> string \<Rightarrow> error + schema" where
  "formJsonToJsonSchema formJson title =
     formJsonToJsonSchema_loop formJson
       \<lparr>schema_type = ''object'', properties = Map.empty, required_names = []\<rparr>"

section \<open>Schema compiler of the validation adapter (validators.js)\<close>

text \<open>
  \<^verbatim>\<open>
    const prop = { title: f.label }
    switch (f.type) {
      case 'string': case 'email': case 'password':
        prop.type = 'string'
        if (f.format) prop.format = f.format
        if (f.minLength) prop.minLength = f.minLength
        if (f.maxLength) prop.maxLength = f.maxLength
        if (f.pattern) prop.pattern = f.pattern
        break
      case 'number': case 'integer':
        prop.type = f.type
        if (f.minimum !== undefined) prop.minimum = f.minimum
        if (f.maximum !== undefined) prop.maximum = f.maximum
        break
      case 'select':
        prop.type = 'string'
        prop.enum = f.options.map((o) => o.value)
        break
      case 'boolean': prop.type = 'boolean'; break
      default: prop.type = 'string'
    }
  \<close>
\<close>

definition validationSchemaProp :: "field \<Rightarrow> error + jsprop" where
  "validationSchemaProp f =
    (let prop = emptyProp\<lparr>p_title := label f\<rparr> in
     if type f = ''string'' \<or> type f = ''email'' \<or> type f = ''password'' then
       (let prop = prop\<lparr>p_type := Some ''string''\<rparr>;
            prop = (if truthyStrOpt (format f) then prop\<lparr>p_format := format f\<rparr> else prop);
            prop = (if truthyNumOpt (minLength f) then prop\<lparr>p_minLength := minLength f\<rparr> else prop);
            prop = (if truthyNumOpt (maxLength f) then prop\<lparr>p_maxLength := maxLength f\<rparr> else prop);
            prop = (if truthyStrOpt (pattern f) then prop\<lparr>p_pattern := pattern f\<rparr> else prop)
        in Inr prop)
     else if type f = ''number'' \<or> type f = ''integer'' then
       (let prop = prop\<lparr>p_type := Some (type f)\<rparr>;
            prop = (if minimum f \<noteq> None then prop\<lparr>p_minimum := minimum f\<rparr> else prop);
            prop = (if maximum f \<noteq> None then prop\<lparr>p_maximum := maximum f\<rparr> else prop)
        in Inr prop)
     else if type f = ''select'' then
       (case options f of
          None \<Rightarrow> Inl TypeError
        | Some opts \<Rightarrow> Inr (prop\<lparr>p_type := Some ''string'', p_enum := Some (map fst opts)\<rparr>))
     else if type f = ''boolean'' then
       Inr (prop\<lparr>p_type := Some ''boolean''\<rparr>)
     else Inr (prop\<lparr>p_type := Some ''string''\<rparr>))"

text \<open>\<open>properties[f.name] = prop\<close>, \<open>if (f.required) required.push(f.name)\<close>, and
  at the end \<open>return { type: 'object', properties, required }\<close>.\<close>

fun formJsonToValidationSchema_loop :: "field list \<Rightarrow> schema \<Rightarrow> error + schema" where
  "formJsonToValidationSchema_loop [] schema = Inr schema"
| "formJsonToValidationSchema_loop (f # rest) schema =
     (case validationSchemaProp f of
        Inl e \<Rightarrow> Inl e
      | Inr prop \<Rightarrow>
          formJsonToValidationSchema_loop rest
            (let schema = schema\<lparr>properties := (properties schema)(name f \<mapsto> prop)\<rparr>
             in if required f
                then schema\<lparr>required_names := required_names schema @ [name f]\<rparr>
                else schema))"

definition formJsonToValidationSchema :: "field list \<Rightarrow> error + schema" where
  "formJsonToValidationSchema formJson =
     formJsonToValidationSchema_loop formJson
       \<lparr>schema_type = ''object'', properties = Map.empty, required_names = []\<rparr>"


section \<open>Validation outcome\<close>

text \<open>
  An outcome maps a field name to one message. Every message of the repository is a
  template literal; a message is kept as the template and the values interpolated:
  \<^item> \<open>IsRequired x\<close>: \<open>`${x} is required`\<close>
  \<^item> \<open>MustBeNumber x\<close>: \<open>`${x} must be a number`\<close>
  \<^item> \<open>MustBeAtLeast x n\<close>: \<open>`${x} must be >= ${n}`\<close> (the sign is U+2265 in the source)
  \<^item> \<open>MustBeAtMost x n\<close>: \<open>`${x} must be <= ${n}`\<close> (U+2264)
  \<^item> \<open>MinCharacters x n\<close>: \<open>`${x} must have at least ${n} characters`\<close>
  \<^item> \<open>ValidFormat x f\<close>: \<open>`${x} must be a valid ${f}`\<close>
  \<^item> \<open>OneOfAllowed x\<close>: \<open>`${x} must be one of the allowed values`\<close>
  \<^item> \<open>Plain s\<close>: the string \<open>s\<close> itself.
  No message is the empty string, so every stored message is truthy.
\<close>

datatype message =
    IsRequired jsval
  | MustBeNumber string
  | MustBeAtLeast string jsval
  | MustBeAtMost string jsval
  | MinCharacters string jsval
  | ValidFormat string jsval
  | OneOfAllowed string
  | Plain string

text \<open>The value of an optional numeric or string property when it is read.\<close>

definition numProp :: "jsnum option \<Rightarrow> jsval" where
  "numProp n = (case n of None \<Rightarrow> Undefined | Some x \<Rightarrow> JNum x)"

definition strProp :: "string option \<Rightarrow> jsval" where
  "strProp s = (case s of None \<Rightarrow> Undefined | Some x \<Rightarrow> JStr x)"

section \<open>The hand-written validator (interpretedFormMachine.js)\<close>

text \<open>
  \<open>Number(value)\<close> and \<open>String(value)\<close>. Reading a number out of a string, and
  printing a number or a built-in function, are not modelled: they are the parameters
  \<open>S\<close> (strings to numbers) and \<open>N\<close> (the text of a number or function), and
  every statement below holds for whatever they compute.
\<close>

fun toNumber :: "(string \<Rightarrow> jsnum) \<Rightarrow> jsval \<Rightarrow> jsnum" where
  "toNumber S Undefined = NaN"
| "toNumber S Null = Fin 0"
| "toNumber S (JBool b) = Fin (if b then 1 else 0)"
| "toNumber S (JNum n) = n"
| "toNumber S (JStr s) = S s"
| "toNumber S (JObj kvs) = NaN"
| "toNumber S (JFun f) = NaN"

fun toString :: "(jsval \<Rightarrow> string) \<Rightarrow> jsval \<Rightarrow> string" where
  "toString N Undefined = ''undefined''"
| "toString N Null = ''null''"
| "toString N (JBool b) = (if b then ''true'' else ''false'')"
| "toString N (JNum n) = N (JNum n)"
| "toString N (JStr s) = s"
| "toString N (JObj kvs) = ''[object Object]''"
| "toString N (JFun f) = N (JFun f)"

text \<open>
  \<open>/^[^\s@]+@[^\s@]+\.[^\s@]+$/.test(s)\<close>: the text before the first \<open>@\<close> is not
  empty and has no white space; the text after it has no white space and no further
  \<open>@\<close>, and has a dot that is neither its first nor its last character.
\<close>

definition emailRegex :: "string \<Rightarrow> bool" where
  "emailRegex s =
    (let local = takeWhile (\<lambda>c. c \<noteq> CHR ''@'') s;
         rest = dropWhile (\<lambda>c. c \<noteq> CHR ''@'') s
     in local \<noteq> [] \<and> list_all (\<lambda>c. \<not> isSpace c) local \<and> rest \<noteq> [] \<and>
        list_all (\<lambda>c. \<not> isSpace c \<and> c \<noteq> CHR ''@'') (tl rest) \<and>
        CHR ''.'' \<in> set (butlast (tl (tl rest))))"

text \<open>\<open>label || name\<close>.\<close>

definition labelOrName :: "field \<Rightarrow> string" where
  "labelOrName field =
    (case label field of None \<Rightarrow> name field | Some l \<Rightarrow> if l \<noteq> [] then l else name field)"

text \<open>
  The body of the loop of \<open>validateFormValues(formValues, formJson)\<close>, on the
  \<open>errors\<close> object built so far; \<open>continue\<close> ends the body.
  \<^verbatim>\<open>
    const value = formValues[name]
    if (required) {
      const missing = value === undefined || value === null ||
        (typeof value === 'string' && value.trim() === '')
      if (missing) { errors[name] = `${label || name} is required`; continue }
    }
    if (value !== undefined && value !== null && value !== '') {
      if (type === 'number' || type === 'integer') {
        const num = Number(value)
        if (Number.isNaN(num)) { errors[name] = `${label || name} must be a number`; continue }
        if (minimum !== undefined && num < minimum) errors[name] = `${label || name} must be >= ${minimum}`
        if (maximum !== undefined && num > maximum) errors[name] = `${label || name} must be <= ${maximum}`
      } else {
        if (minLength !== undefined && String(value).length < minLength)
          errors[name] = `${label || name} must have at least ${minLength} characters`
        if (format === 'email') {
          const emailRegex = /^[^\s@]+@[^\s@]+\.[^\s@]+$/
          if (!emailRegex.test(String(value))) errors[name] = `${label || name} must be a valid email`
        }
      }
    }
  \<close>
\<close>

definition missing :: "jsval \<Rightarrow> bool" where
  "missing v = (v = Undefined \<or> v = Null \<or> (case v of JStr s \<Rightarrow> trim s = [] | _ \<Rightarrow> False))"

definition validateField ::
  "(string \<Rightarrow> jsnum) \<Rightarrow> (jsval \<Rightarrow> string) \<Rightarrow> (string \<rightharpoonup> jsval) \<Rightarrow> field \<Rightarrow>
   (string \<rightharpoonup> message) \<Rightarrow> (string \<rightharpoonup> message)" where
  "validateField S N formValues field errors =
    (let v = lookup formValues (name field) in
     if required field \<and> missing v then
       assignProp errors (name field) (IsRequired (JStr (labelOrName field)))
     else if v \<noteq> Undefined \<and> v \<noteq> Null \<and> v \<noteq> JStr [] then
       (if type field = ''number'' \<or> type field = ''integer'' then
          (let num = toNumber S v in
           if num = NaN then
             assignProp errors (name field) (MustBeNumber (labelOrName field))
           else
             (let errors =
                (if minimum field \<noteq> None \<and> js_lt num (the (minimum field))
                 then assignProp errors (name field)
                        (MustBeAtLeast (labelOrName field) (numProp (minimum field)))
                 else errors);
                  errors =
                (if maximum field \<noteq> None \<and> js_gt num (the (maximum field))
                 then assignProp errors (name field)
                        (MustBeAtMost (labelOrName field) (numProp (maximum field)))
                 else errors)
              in errors))
        else
          (let errors =
             (if minLength field \<noteq> None \<and>
                 js_lt (Fin (real (length (toString N v)))) (the (minLength field))
              then assignProp errors (name field)
                     (MinCharacters (labelOrName field) (numProp (minLength field)))
              else errors);
               errors =
             (if format field = Some ''email'' \<and> \<not> emailRegex (toString N v)
              then assignProp errors (name field)
                     (ValidFormat (labelOrName field) (JStr ''email''))
              else errors)
           in errors))
     else errors)"

fun validateFormValues_loop ::
  "(string \<Rightarrow> jsnum) \<Rightarrow> (jsval \<Rightarrow> string) \<Rightarrow> (string \<rightharpoonup> jsval) \<Rightarrow> field list \<Rightarrow>
   (string \<rightharpoonup> message) \<Rightarrow> (string \<rightharpoonup> message)" where
  "validateFormValues_loop S N formValues [] errors = errors"
| "validateFormValues_loop S N formValues (field # rest) errors =
     validateFormValues_loop S N formValues rest (validateField S N formValues field errors)"

definition validateFormValues ::
  "(string \<Rightarrow> jsnum) \<Rightarrow> (jsval \<Rightarrow> string) \<Rightarrow> (string \<rightharpoonup> jsval) \<Rightarrow> field list \<Rightarrow>
   (string \<rightharpoonup> message)" where
  "validateFormValues S N formValues formJson =
     validateFormValues_loop S N formValues formJson Map.empty"

section \<open>The rules of the validator, one by one\<close>

text \<open>
  The stages of the evaluation order of section 4.2 of the specification, as far as
  this validator checks them: when each is violated by a value of a field, and the
  message it records. Stages other than \<open>required\<close> govern present, non-empty
  values only; the type and range stages govern fields of type number or integer, the
  format and length stages the other fields.
\<close>

definition present :: "jsval \<Rightarrow> bool" where
  "present v = (v \<noteq> Undefined \<and> v \<noteq> Null \<and> v \<noteq> JStr [])"

definition isNumeric :: "field \<Rightarrow> bool" where
  "isNumeric f = (type f = ''number'' \<or> type f = ''integer'')"

definition requiredRule :: "field \<Rightarrow> jsval \<Rightarrow> bool \<times> message" where
  "requiredRule f v = (required f \<and> missing v, IsRequired (JStr (labelOrName f)))"

definition typeRule :: "(string \<Rightarrow> jsnum) \<Rightarrow> field \<Rightarrow> jsval \<Rightarrow> bool \<times> message" where
  "typeRule S f v = (present v \<and> isNumeric f \<and> toNumber S v = NaN, MustBeNumber (labelOrName f))"

definition formatRule :: "(jsval \<Rightarrow> string) \<Rightarrow> field \<Rightarrow> jsval \<Rightarrow> bool \<times> message" where
  "formatRule N f v =
     (present v \<and> \<not> isNumeric f \<and> format f = Some ''email'' \<and> \<not> emailRegex (toString N v),
      ValidFormat (labelOrName f) (JStr ''email''))"

definition minLengthRule :: "(jsval \<Rightarrow> string) \<Rightarrow> field \<Rightarrow> jsval \<Rightarrow> bool \<times> message" where
  "minLengthRule N f v =
     (present v \<and> \<not> isNumeric f \<and>
        (case minLength f of None \<Rightarrow> False
         | Some m \<Rightarrow> js_lt (Fin (real (length (toString N v)))) m),
      MinCharacters (labelOrName f) (numProp (minLength f)))"

text \<open>
  The specification writes \<open>minimum/maximum\<close> as one stage. It is violated when the
  value is below the minimum or above the maximum, and its message names the bound
  that is crossed (the maximum when both are, which takes a minimum above the maximum).
\<close>

definition belowMinimum :: "(string \<Rightarrow> jsnum) \<Rightarrow> field \<Rightarrow> jsval \<Rightarrow> bool" where
  "belowMinimum S f v =
     (present v \<and> isNumeric f \<and>
        (case minimum f of None \<Rightarrow> False | Some m \<Rightarrow> js_lt (toNumber S v) m))"

definition aboveMaximum :: "(string \<Rightarrow> jsnum) \<Rightarrow> field \<Rightarrow> jsval \<Rightarrow> bool" where
  "aboveMaximum S f v =
     (present v \<and> isNumeric f \<and>
        (case maximum f of None \<Rightarrow> False | Some m \<Rightarrow> js_gt (toNumber S v) m))"

definition rangeRule :: "(string \<Rightarrow> jsnum) \<Rightarrow> field \<Rightarrow> jsval \<Rightarrow> bool \<times> message" where
  "rangeRule S f v =
     (belowMinimum S f v \<or> aboveMaximum S f v,
      if aboveMaximum S f v then MustBeAtMost (labelOrName f) (numProp (maximum f))
      else MustBeAtLeast (labelOrName f) (numProp (minimum f)))"

text \<open>The message of the first violated rule of a list of rules.\<close>

fun firstViolated :: "(bool \<times> message) list \<Rightarrow> message option" where
  "firstViolated [] = None"
| "firstViolated ((violated, msg) # rules) = (if violated then Some msg else firstViolated rules)"

text \<open>The order of section 4.2: required, type, format, minLength, minimum/maximum.\<close>

definition rulesInSpecOrder ::
  "(string \<Rightarrow> jsnum) \<Rightarrow> (jsval \<Rightarrow> string) \<Rightarrow> field \<Rightarrow> jsval \<Rightarrow> (bool \<times> message) list" where
  "rulesInSpecOrder S N f v =
     [requiredRule f v, typeRule S f v, formatRule N f v, minLengthRule N f v, rangeRule S f v]"

section \<open>The AJV adapter (validators.js)\<close>

text \<open>
  AJV is a library outside the repository. It is a parameter: \<open>ajv.compile(schema)\<close>
  throws or returns a validating function, and a call of that function gives the
  boolean it returns together with its \<open>errors\<close> property afterwards (\<open>None\<close> for
  \<open>null\<close>). Nothing is assumed about what the engine answers. An error object has the
  properties the adapter reads; \<open>params.missingProperty\<close> is a string when present.
\<close>

record ajv_error =
  instancePath :: string
  keyword :: string
  params :: "(string \<times> jsval) list"
  err_message :: "string option"

type_synonym validateFunction = "(string \<rightharpoonup> jsval) \<Rightarrow> bool \<times> ajv_error list option"

type_synonym ajv = "schema \<Rightarrow> error + validateFunction"

text \<open>\<open>path.replace(/^\//, '')\<close> removes a leading slash; \<open>path.replace('/', '')\<close>
  removes the first slash wherever it stands.\<close>

definition stripLeadingSlash :: "string \<Rightarrow> string" where
  "stripLeadingSlash s = (case s of [] \<Rightarrow> [] | c # cs \<Rightarrow> if c = CHR ''/'' then cs else s)"

definition removeFirstSlash :: "string \<Rightarrow> string" where
  "removeFirstSlash s =
     takeWhile (\<lambda>c. c \<noteq> CHR ''/'') s @ drop 1 (dropWhile (\<lambda>c. c \<noteq> CHR ''/'') s)"

text \<open>
  \<^verbatim>\<open>
  function formatErrorMessage(err, formJson) {
    const fieldDef = formJson.find((f) => f.name === err.instancePath.replace(/^\//, ''))
    const label = fieldDef?.label || err.instancePath
    switch (err.keyword) {
      case 'required':  return `${err.params.missingProperty} is required`
      case 'minLength': return `${label} must have at least ${err.params.limit} characters`
      case 'format':    return `${label} must be a valid ${err.params.format}`
      case 'minimum':   return `${label} must be >= ${err.params.limit}`
      case 'maximum':   return `${label} must be <= ${err.params.limit}`
      case 'enum':      return `${label} must be one of the allowed values`
      default:          return err.message || 'Invalid value'
    }
  }
  \<close>
\<close>

definition formatErrorMessage :: "ajv_error \<Rightarrow> field list \<Rightarrow> message" where
  "formatErrorMessage err formJson =
    (let fieldDef = find (\<lambda>f. name f = stripLeadingSlash (instancePath err)) formJson;
         lbl = (case fieldDef of
                  None \<Rightarrow> instancePath err
                | Some f \<Rightarrow> if truthyStrOpt (label f) then the (label f) else instancePath err)
     in if keyword err = ''required'' then IsRequired (getProp (JObj (params err)) ''missingProperty'')
        else if keyword err = ''minLength'' then MinCharacters lbl (getProp (JObj (params err)) ''limit'')
        else if keyword err = ''format'' then ValidFormat lbl (getProp (JObj (params err)) ''format'')
        else if keyword err = ''minimum'' then MustBeAtLeast lbl (getProp (JObj (params err)) ''limit'')
        else if keyword err = ''maximum'' then MustBeAtMost lbl (getProp (JObj (params err)) ''limit'')
        else if keyword err = ''enum'' then OneOfAllowed lbl
        else Plain (if truthyStrOpt (err_message err) then the (err_message err)
                    else ''Invalid value''))"

text \<open>
  The loop over the engine's errors:
  \<^verbatim>\<open>
    const field = err.instancePath.replace(/^\//, '') || err.params?.missingProperty
    if (field && !errors[field]) {
      errors[field] = formatErrorMessage(err, formJson)
    }
  \<close>
  \<open>errors[field]\<close> is falsy when \<open>errors\<close> has no own message for the name and
  inherits nothing for it: an own message is a non-empty string, and every member of
  \<open>Object.prototype\<close> is an object.
\<close>

definition errorField :: "ajv_error \<Rightarrow> jsval" where
  "errorField err =
    (if stripLeadingSlash (instancePath err) \<noteq> [] then JStr (stripLeadingSlash (instancePath err))
     else getProp (JObj (params err)) ''missingProperty'')"

fun mapErrors :: "field list \<Rightarrow> ajv_error list \<Rightarrow> (string \<rightharpoonup> message) \<Rightarrow> (string \<rightharpoonup> message)" where
  "mapErrors formJson [] errors = errors"
| "mapErrors formJson (err # rest) errors =
     mapErrors formJson rest
       (case errorField err of
          JStr field \<Rightarrow>
            if field \<noteq> [] \<and> errors field = None \<and> field \<notin> set objectPrototypeNames
            then assignProp errors field (formatErrorMessage err formJson)
            else errors
        | _ \<Rightarrow> errors)"

text \<open>
  \<^verbatim>\<open>
  export function validateWithAJV(formValues, formJson) {
    const schema = formJsonToValidationSchema(formJson)
    const validate = ajv.compile(schema)
    const valid = validate(formValues)
    if (valid) return {}
    const errors = {}
    for (const err of validate.errors || []) { ... }
    return errors
  }
  \<close>
\<close>

definition validateWithAJV ::
  "ajv \<Rightarrow> (string \<rightharpoonup> jsval) \<Rightarrow> field list \<Rightarrow> error + (string \<rightharpoonup> message)" where
  "validateWithAJV engine formValues formJson =
    (case formJsonToValidationSchema formJson of
       Inl e \<Rightarrow> Inl e
     | Inr schema \<Rightarrow>
        (case engine schema of
           Inl e \<Rightarrow> Inl e
         | Inr validate \<Rightarrow>
            (case validate formValues of
               (valid, errs) \<Rightarrow>
                 if valid then Inr Map.empty
                 else Inr (mapErrors formJson (case errs of None \<Rightarrow> [] | Some es \<Rightarrow> es)
                            Map.empty))))"

section \<open>The form machine (formMachineFactory.js)\<close>

text \<open>
  \<open>createFormMachine(action, submitFn)\<close> configures an XState (version 4) machine. The
  model keeps the configuration as tables and interprets them as XState does:
  \<^item> an event for which the current state has no transition changes nothing;
  \<^item> a transition with a target runs the exit actions of the source, then its own
    actions, then the entry actions of the target; one without a target runs its own
    actions only and stays;
  \<^item> all these actions are \<open>assign\<close> actions, applied to the context in that order;
  \<^item> after that, \<open>always\<close> transitions of the state reached are taken, the first whose
    guard holds, within the same call;
  \<^item> the promise invoked in \<open>submitting\<close> answers with the event
    \<open>done.invoke.submitService\<close> (\<open>DoneInvoke\<close>, \<open>data\<close> the value) or
    \<open>error.platform.submitService\<close> (\<open>ErrorPlatform\<close>, \<open>data\<close> the rejection); it
    lives only while the machine is in \<open>submitting\<close>.
  \<open>PREFILL\<close> carries the own properties of \<open>ev.data\<close>. The context of the
  machine is the record \<open>formContext\<close>.
\<close>

datatype state = Idle | Editing | Validating | Submitting | Success

datatype event =
    OPEN
  | PREFILL "(string \<times> jsval) list"
  | CHANGE string jsval
  | SUBMIT
  | RESET
  | CLOSE
  | DoneInvoke jsval
  | ErrorPlatform jsval
  | OtherEvent string

record formContext =
  form :: "string \<rightharpoonup> jsval"
  errors :: "string \<rightharpoonup> message"
  submitting :: bool
  result :: jsval
  serverError :: jsval

datatype action =
    assignField | clearFieldError | runValidation | prefillForm | resetForm
  | markSubmitting | clearSubmitting | assignResult | assignServerError | clearServerError

datatype guard = isValid

record transitionConfig =
  cond :: "guard option"
  target :: "state option"
  actions :: "action list"

text \<open>The \<open>on\<close> table of each state, with \<open>invoke.onDone\<close> and \<open>invoke.onError\<close>.\<close>

fun stateOn :: "state \<Rightarrow> event \<Rightarrow> transitionConfig list" where
  "stateOn Idle OPEN = [\<lparr>cond = None, target = Some Editing, actions = []\<rparr>]"
| "stateOn Idle (PREFILL d) = [\<lparr>cond = None, target = Some Editing, actions = [prefillForm]\<rparr>]"
| "stateOn Editing (CHANGE n v) =
     [\<lparr>cond = None, target = None, actions = [assignField, clearFieldError]\<rparr>]"
| "stateOn Editing SUBMIT =
     [\<lparr>cond = None, target = Some Validating, actions = [runValidation]\<rparr>]"
| "stateOn Editing RESET = [\<lparr>cond = None, target = Some Idle, actions = [resetForm]\<rparr>]"
| "stateOn Submitting (DoneInvoke d) =
     [\<lparr>cond = None, target = Some Success, actions = [assignResult, clearSubmitting]\<rparr>]"
| "stateOn Submitting (ErrorPlatform d) =
     [\<lparr>cond = None, target = Some Editing, actions = [assignServerError, clearSubmitting]\<rparr>]"
| "stateOn Success OPEN = [\<lparr>cond = None, target = Some Editing, actions = [resetForm]\<rparr>]"
| "stateOn Success CLOSE = [\<lparr>cond = None, target = Some Idle, actions = []\<rparr>]"
| "stateOn _ _ = []"

fun stateAlways :: "state \<Rightarrow> transitionConfig list" where
  "stateAlways Validating =
     [\<lparr>cond = Some isValid, target = Some Submitting, actions = []\<rparr>,
      \<lparr>cond = None, target = Some Editing, actions = []\<rparr>]"
| "stateAlways _ = []"

fun stateEntry :: "state \<Rightarrow> action list" where
  "stateEntry Editing = [clearServerError]"
| "stateEntry Submitting = [markSubmitting]"
| "stateEntry _ = []"

fun stateExit :: "state \<Rightarrow> action list" where
  "stateExit _ = []"

text \<open>\<open>ev.name\<close>, \<open>ev.value\<close> and \<open>ev.data\<close>; a property the event does not have reads
  as \<open>undefined\<close>, which as a computed key is the string \<open>undefined\<close>.\<close>

fun evName :: "event \<Rightarrow> string" where
  "evName (CHANGE n v) = n"
| "evName _ = ''undefined''"

fun evValue :: "event \<Rightarrow> jsval" where
  "evValue (CHANGE n v) = v"
| "evValue _ = Undefined"

fun evData :: "event \<Rightarrow> jsval" where
  "evData (PREFILL d) = JObj d"
| "evData (DoneInvoke d) = d"
| "evData (ErrorPlatform d) = d"
| "evData _ = Undefined"

text \<open>\<open>{ ...obj, ...data }\<close> for the own properties of \<open>data\<close>.\<close>

fun spread :: "(string \<rightharpoonup> jsval) \<Rightarrow> jsval \<Rightarrow> (string \<rightharpoonup> jsval)" where
  "spread obj (JObj kvs) = obj ++ map_of kvs"
| "spread obj _ = obj"

text \<open>
  The actions:
  \<^verbatim>\<open>
    assignField: assign((ctx, ev) => ({ form: { ...ctx.form, [ev.name]: ev.value } })),
    clearFieldError: assign((ctx, ev) => {
      const next = { ...ctx.errors }; delete next[ev.name]; return { errors: next } }),
    runValidation: assign((ctx) => ({ errors: validateWithAJV(ctx.form, action.formJson) })),
    prefillForm: assign((ctx, ev) => ({ form: { ...ctx.form, ...ev.data } })),
    resetForm: assign(() => ({ form: initialForm, errors: {}, result: null, serverError: null })),
    markSubmitting: assign({ submitting: true }),
    clearSubmitting: assign({ submitting: false }),
    assignResult: assign((ctx, ev) => ({ result: ev.data })),
    assignServerError: assign((ctx, ev) => ({
      serverError: ev.data?.message || 'Submission failed' })),
    clearServerError: assign({ serverError: null })
  \<close>
  with \<open>initialForm = buildInitialValues(action.formJson)\<close>.
\<close>

fun exec :: "ajv \<Rightarrow> field list \<Rightarrow> action \<Rightarrow> event \<Rightarrow> formContext \<Rightarrow> error + formContext" where
  "exec engine formJson assignField ev ctx =
     Inr (ctx\<lparr>form := (form ctx)(evName ev \<mapsto> evValue ev)\<rparr>)"
| "exec engine formJson clearFieldError ev ctx =
     Inr (ctx\<lparr>errors := (errors ctx)(evName ev := None)\<rparr>)"
| "exec engine formJson runValidation ev ctx =
     (case validateWithAJV engine (form ctx) formJson of
        Inl e \<Rightarrow> Inl e
      | Inr errs \<Rightarrow> Inr (ctx\<lparr>errors := errs\<rparr>))"
| "exec engine formJson prefillForm ev ctx =
     Inr (ctx\<lparr>form := spread (form ctx) (evData ev)\<rparr>)"
| "exec engine formJson resetForm ev ctx =
     Inr (ctx\<lparr>form := buildInitialValues formJson, errors := Map.empty, result := Null,
              serverError := Null\<rparr>)"
| "exec engine formJson markSubmitting ev ctx = Inr (ctx\<lparr>submitting := True\<rparr>)"
| "exec engine formJson clearSubmitting ev ctx = Inr (ctx\<lparr>submitting := False\<rparr>)"
| "exec engine formJson assignResult ev ctx = Inr (ctx\<lparr>result := evData ev\<rparr>)"
| "exec engine formJson assignServerError ev ctx =
     Inr (ctx\<lparr>serverError :=
            (if truthy (getProp (evData ev) ''message'') then getProp (evData ev) ''message''
             else JStr ''Submission failed'')\<rparr>)"
| "exec engine formJson clearServerError ev ctx = Inr (ctx\<lparr>serverError := Null\<rparr>)"

fun execActions ::
  "ajv \<Rightarrow> field list \<Rightarrow> action list \<Rightarrow> event \<Rightarrow> formContext \<Rightarrow> error + formContext" where
  "execActions engine formJson [] ev ctx = Inr ctx"
| "execActions engine formJson (a # rest) ev ctx =
     (case exec engine formJson a ev ctx of
        Inl e \<Rightarrow> Inl e
      | Inr ctx' \<Rightarrow> execActions engine formJson rest ev ctx')"

text \<open>The guard: \<open>isValid: (ctx) => Object.keys(ctx.errors).length === 0\<close>.\<close>

fun evalGuard :: "guard \<Rightarrow> formContext \<Rightarrow> bool" where
  "evalGuard isValid ctx = (errors ctx = Map.empty)"

text \<open>The first candidate whose guard holds.\<close>

fun pick :: "transitionConfig list \<Rightarrow> formContext \<Rightarrow> transitionConfig option" where
  "pick [] ctx = None"
| "pick (t # ts) ctx =
     (case cond t of
        None \<Rightarrow> Some t
      | Some g \<Rightarrow> if evalGuard g ctx then Some t else pick ts ctx)"

text \<open>Taking one transition from state \<open>s\<close>.\<close>

definition takeTransition ::
  "ajv \<Rightarrow> field list \<Rightarrow> state \<Rightarrow> transitionConfig \<Rightarrow> event \<Rightarrow> formContext \<Rightarrow>
   error + (state \<times> formContext)" where
  "takeTransition engine formJson s t ev ctx =
    (case target t of
       None \<Rightarrow>
         (case execActions engine formJson (actions t) ev ctx of
            Inl e \<Rightarrow> Inl e
          | Inr ctx' \<Rightarrow> Inr (s, ctx'))
     | Some s' \<Rightarrow>
         (case execActions engine formJson (stateExit s @ actions t @ stateEntry s') ev ctx of
            Inl e \<Rightarrow> Inl e
          | Inr ctx' \<Rightarrow> Inr (s', ctx')))"

text \<open>The \<open>always\<close> transitions are followed until a state has none to take. No
  \<open>always\<close> transition of this machine leads to a state that has one, which is why
  the recursion ends.\<close>

function resolveAlways ::
  "ajv \<Rightarrow> field list \<Rightarrow> state \<Rightarrow> formContext \<Rightarrow> event \<Rightarrow> error + (state \<times> formContext)" where
  "resolveAlways engine formJson s ctx ev =
    (case pick (stateAlways s) ctx of
       None \<Rightarrow> Inr (s, ctx)
     | Some t \<Rightarrow>
        (case target t of
           None \<Rightarrow> Inr (s, ctx)
         | Some s' \<Rightarrow>
            (case execActions engine formJson (stateExit s @ actions t @ stateEntry s') ev ctx of
               Inl e \<Rightarrow> Inl e
             | Inr ctx' \<Rightarrow> resolveAlways engine formJson s' ctx' ev)))"
  by pat_completeness auto
termination
proof (relation "measure (\<lambda>(engine, formJson, s, ctx, ev). if s = Validating then 1 else 0)")
  show "wf (measure (\<lambda>(engine, formJson, s, ctx, ev). if s = Validating then 1 else (0::nat)))"
    by simp
next
  fix engine :: ajv and formJson :: "field list" and s s' :: state
    and ctx ctx' :: formContext and ev :: event and t :: transitionConfig
  assume "pick (stateAlways s) ctx = Some t" and "target t = Some s'"
  then show "((engine, formJson, s', ctx', ev), (engine, formJson, s, ctx, ev))
      \<in> measure (\<lambda>(engine, formJson, s, ctx, ev). if s = Validating then 1 else 0)"
    by (cases s) (auto split: if_splits)
qed

declare resolveAlways.simps [simp del]

text \<open>\<open>machine.transition(state, event)\<close>: the state and context after the event, or
  the exception an action threw.\<close>

definition transition ::
  "ajv \<Rightarrow> field list \<Rightarrow> state \<times> formContext \<Rightarrow> event \<Rightarrow> error + (state \<times> formContext)" where
  "transition engine formJson sc ev =
    (case pick (stateOn (fst sc) ev) (snd sc) of
       None \<Rightarrow> Inr sc
     | Some t \<Rightarrow>
        (case takeTransition engine formJson (fst sc) t ev (snd sc) of
           Inl e \<Rightarrow> Inl e
         | Inr (s', ctx') \<Rightarrow> resolveAlways engine formJson s' ctx' ev))"

text \<open>\<open>service.send(event)\<close>: an exception thrown by an action leaves \<open>send\<close> before
  the interpreter stores a new state, so the machine stays where it was.\<close>

definition send :: "ajv \<Rightarrow> field list \<Rightarrow> state \<times> formContext \<Rightarrow> event \<Rightarrow> state \<times> formContext" where
  "send engine formJson sc ev =
    (case transition engine formJson sc ev of Inl e \<Rightarrow> sc | Inr sc' \<Rightarrow> sc')"

text \<open>The machine starts in \<open>idle\<close> with this context.\<close>

definition initialContext :: "field list \<Rightarrow> formContext" where
  "initialContext formJson =
     \<lparr>form = buildInitialValues formJson, errors = Map.empty, submitting = False,
      result = Null, serverError = Null\<rparr>"

section \<open>The guard of the WebSocket session machine (server)\<close>

text \<open>
  The server builds a second machine per WebSocket session. Its context has the
  fields \<open>formId\<close>, \<open>formData\<close>, \<open>errors\<close>, \<open>serverErrors\<close>, \<open>isSubmitting\<close> and
  \<open>result\<close> (\<open>errors_ws\<close> and \<open>result_ws\<close> below, apart from the fields of the
  form machine); \<open>validators\<close> maps an action id to its compiled validating function.
  \<^verbatim>\<open>
    isValid: (ctx) => {
      const validator = validators[ctx.formId]
      const valid = validator(ctx.formData)
      if (!valid) {
        // side-effect: store errors (not ideal but works for demo)
        ctx.errors = {}
        for (const err of validator.errors) {
          const field = err.instancePath.replace('/', '') || err.params.missingProperty
          ctx.errors[field] = err.message
        }
      }
      return valid
    }
  \<close>
  The guard writes to the context it is given, so the model returns the context with
  the boolean. Calling \<open>undefined\<close> and iterating over \<open>null\<close> throw a \<open>TypeError\<close>.
\<close>

record sessionContext =
  formId :: string
  formData :: "string \<rightharpoonup> jsval"
  errors_ws :: "string \<rightharpoonup> jsval"
  serverErrors :: "string \<rightharpoonup> jsval"
  isSubmitting :: bool
  result_ws :: jsval

definition errorKey :: "ajv_error \<Rightarrow> string" where
  "errorKey err =
    (if removeFirstSlash (instancePath err) \<noteq> [] then removeFirstSlash (instancePath err)
     else (case getProp (JObj (params err)) ''missingProperty'' of
             JStr s \<Rightarrow> s
           | _ \<Rightarrow> ''undefined''))"

fun storeErrors :: "ajv_error list \<Rightarrow> (string \<rightharpoonup> jsval) \<Rightarrow> (string \<rightharpoonup> jsval)" where
  "storeErrors [] acc = acc"
| "storeErrors (err # rest) acc =
     storeErrors rest (assignProp acc (errorKey err) (strProp (err_message err)))"

definition isValid_ws ::
  "(string \<rightharpoonup> validateFunction) \<Rightarrow> sessionContext \<Rightarrow> error + (bool \<times> sessionContext)" where
  "isValid_ws validators ctx =
    (case validators (formId ctx) of
       None \<Rightarrow> Inl TypeError
     | Some validator \<Rightarrow>
        (case validator (formData ctx) of
           (valid, errs) \<Rightarrow>
             if \<not> valid then
               (case errs of
                  None \<Rightarrow> Inl TypeError
                | Some es \<Rightarrow> Inr (valid, ctx\<lparr>errors_ws := storeErrors es Map.empty\<rparr>))
             else Inr (valid, ctx)))"

section \<open>Examples\<close>

text \<open>A field literal that gives only a name and a type, as
  \<open>{ name: n, type: t }\<close>; examples add the other keys by record update.\<close>

definition fieldOf :: "string \<Rightarrow> string \<Rightarrow> field" where
  "fieldOf n t = \<lparr>name = n, type = t, label = None, required = False, minLength = None,
     maxLength = None, minimum = None, maximum = None, pattern = None, format = None,
     options = None, default = Undefined, placeholder = None, description = None\<rparr>"

text \<open>
  In the examples below a numeric field holds a number and every other field a string,
  so that neither built-in is reached; the examples pass these two for them.
\<close>

definition anyStringToNumber :: "string \<Rightarrow> jsnum" where
  "anyStringToNumber s = NaN"

definition anyNumberToString :: "jsval \<Rightarrow> string" where
  "anyNumberToString v = ''?''"

text \<open>
  Scenario A of the specification: one required field \<open>username\<close> with
  \<open>minLength: 3\<close>.
\<close>

definition scenarioFields :: "field list" where
  "scenarioFields =
     [(fieldOf ''username'' ''string'')\<lparr>label := Some ''Username'', required := True,
        minLength := Some (Fin 3)\<rparr>]"

text \<open>
  Stand-ins for the engine in the examples. \<open>usernameEngine\<close> answers as AJV does
  on the property \<open>username\<close> of a schema, for the keywords \<open>required\<close>,
  \<open>type: 'string'\<close> and \<open>minLength\<close>: a value map in which the property is
  missing or \<open>undefined\<close> is reported under \<open>required\<close> when the schema
  requires the name; a value that is not a string is reported under \<open>type\<close>; a
  string shorter than the schema's \<open>minLength\<close> under \<open>minLength\<close>; every
  other value map is accepted.
\<close>

definition usernameEngine :: ajv where
  "usernameEngine schema =
     Inr (\<lambda>formValues.
       if formValues ''username'' = None \<or> formValues ''username'' = Some Undefined then
         (if ''username'' \<in> set (required_names schema)
          then (False, Some [\<lparr>instancePath = [], keyword = ''required'',
                              params = [(''missingProperty'', JStr ''username'')],
                              err_message = Some ''must have required property username''\<rparr>])
          else (True, None))
       else
         (case properties schema ''username'' of
            None \<Rightarrow> (True, None)
          | Some p \<Rightarrow>
             (case the (formValues ''username'') of
                JStr s \<Rightarrow>
                  (case p_minLength p of
                     None \<Rightarrow> (True, None)
                   | Some m \<Rightarrow>
                       if js_lt (Fin (real (length s))) m
                       then (False, Some [\<lparr>instancePath = ''/username'', keyword = ''minLength'',
                                           params = [(''limit'', JNum m)],
                                           err_message = Some ''must NOT have fewer characters''\<rparr>])
                       else (True, None))
              | _ \<Rightarrow>
                  if p_type p = Some ''string''
                  then (False, Some [\<lparr>instancePath = ''/username'', keyword = ''type'',
                                      params = [(''type'', JStr ''string'')],
                                      err_message = Some ''must be string''\<rparr>])
                  else (True, None))))"


text \<open>The validating function of a session whose engine finds the required property
  \<open>username\<close> missing.\<close>

definition rejectingValidator :: validateFunction where
  "rejectingValidator formValues =
     (False, Some [\<lparr>instancePath = [], keyword = ''required'',
                     params = [(''missingProperty'', JStr ''username'')],
                     err_message = Some ''must have required property username''\<rparr>])"

definition sessionStart :: sessionContext where
  "sessionStart = \<lparr>formId = ''createUser'', formData = Map.empty, errors_ws = Map.empty,
     serverErrors = Map.empty, isSubmitting = False, result_ws = Null\<rparr>"

section \<open>Properties\<close>

subsection \<open>The schema compilers, field by field\<close>

























subsection \<open>C3: the schema compiler returns a schema\<close>



text \<open>Outside the data model, at a select field that has no options, the two
  compilers read \<open>field.options.map\<close> of \<open>undefined\<close>.\<close>

lemma select_without_options_throws:
  "formJsonToJsonSchema [fieldOf ''role'' ''select''] ''Form'' = Inl TypeError \<and>
   formJsonToValidationSchema [fieldOf ''role'' ''select''] = Inl TypeError"
  by (simp add: formJsonToJsonSchema_def formJsonToValidationSchema_def jsonSchemaProp_def
      jsonSchemaSwitch_def validationSchemaProp_def fieldOf_def)

subsection \<open>C4: which constraints reach the schema\<close>





subsection \<open>Assignment to a plain object\<close>

lemma assignProp_apply:
  "assignProp obj k v n = (if n = k \<and> k \<noteq> ''__proto__'' then Some v else obj n)"
  by (simp add: assignProp_def)

lemma assignProp_proto: "assignProp obj k v ''__proto__'' = obj ''__proto__''"
  by (cases "k = ''__proto__''") (simp_all add: assignProp_def)

subsection \<open>C10: initial form values\<close>

lemma buildInitialValues_loop_other:
  "n \<notin> name ` set fs \<Longrightarrow> buildInitialValues_loop fs acc n = acc n"
  by (induction fs arbitrary: acc) (auto simp: assignProp_apply)

lemma buildInitialValues_loop_proto:
  "buildInitialValues_loop fs acc ''__proto__'' = acc ''__proto__''"
  by (induction fs arbitrary: acc) (simp_all add: assignProp_proto)

lemma buildInitialValues_loop_defined:
  "n \<in> name ` set fs \<Longrightarrow> n \<noteq> ''__proto__'' \<Longrightarrow>
   buildInitialValues_loop fs acc n \<noteq> None"
proof (induction fs arbitrary: acc)
  case Nil
  then show ?case by simp
next
  case (Cons g gs)
  show ?case
  proof (cases "n \<in> name ` set gs")
    case True
    then show ?thesis using Cons.IH Cons.prems(2) by simp
  next
    case False
    with Cons.prems have "n = name g" by simp
    with False Cons.prems(2) show ?thesis
      by (simp add: buildInitialValues_loop_other assignProp_apply)
  qed
qed

lemma buildInitialValues_loop_entry:
  "distinct (map name fs) \<Longrightarrow> f \<in> set fs \<Longrightarrow> name f \<noteq> ''__proto__'' \<Longrightarrow>
   buildInitialValues_loop fs acc (name f) =
     Some (if default f \<noteq> Undefined then default f
           else if type f = ''boolean'' then JBool False else JStr '''')"
proof (induction fs arbitrary: acc)
  case Nil
  then show ?case by simp
next
  case (Cons g gs)
  show ?case
  proof (cases "f = g")
    case True
    from Cons.prems(1) have "name g \<notin> name ` set gs" by simp
    then show ?thesis using True Cons.prems(3)
      by (simp add: buildInitialValues_loop_other assignProp_apply)
  next
    case False
    with Cons.prems have "f \<in> set gs" "distinct (map name gs)" by simp_all
    then show ?thesis using Cons.IH Cons.prems(3) by simp
  qed
qed

text \<open>
  C10 says that the initial values have an entry for every field named in the list: the
  declared default when the field declares one, otherwise \<open>false\<close> for a field of
  type boolean and the empty string for every other type. The code gives that entry to
  every field but one named \<open>__proto__\<close> (with the value the claim gives, names
  being unique within a definition): \<open>values['__proto__'] = ...\<close> reaches the setter
  of \<open>Object.prototype\<close>, so no field list gives the initial values an entry of that
  name.
\<close>

theorem buildInitialValues_entry:
  "(f \<in> set formJson \<and> name f \<noteq> ''__proto__'' \<longrightarrow>
      buildInitialValues formJson (name f) \<noteq> None \<and>
      (distinct (map name formJson) \<longrightarrow>
         buildInitialValues formJson (name f) =
           Some (if default f \<noteq> Undefined then default f
                 else if type f = ''boolean'' then JBool False else JStr ''''))) \<and>
   buildInitialValues formJson ''__proto__'' = None"
proof (intro conjI impI)
  assume a: "f \<in> set formJson \<and> name f \<noteq> ''__proto__''"
  then have "name f \<in> name ` set formJson" by simp
  with a show "buildInitialValues formJson (name f) \<noteq> None"
    unfolding buildInitialValues_def by (simp add: buildInitialValues_loop_defined)
  assume "distinct (map name formJson)"
  from buildInitialValues_loop_entry [OF this conjunct1 [OF a] conjunct2 [OF a]]
  show "buildInitialValues formJson (name f) =
          Some (if default f \<noteq> Undefined then default f
                else if type f = ''boolean'' then JBool False else JStr '''')"
    by (simp add: buildInitialValues_def)
next
  show "buildInitialValues formJson ''__proto__'' = None"
    by (simp add: buildInitialValues_def buildInitialValues_loop_proto)
qed

text \<open>The theorem of C10 at a list of three fields: the boolean field starts at
  \<open>false\<close>, the field with a default at its default.\<close>

theorem buildInitialValues_entry_witness:
  "buildInitialValues
     [fieldOf ''username'' ''string'',
      (fieldOf ''role'' ''select'')\<lparr>default := JStr ''user''\<rparr>,
      fieldOf ''subscribe'' ''boolean''] ''subscribe'' = Some (JBool False) \<and>
   buildInitialValues
     [fieldOf ''username'' ''string'',
      (fieldOf ''role'' ''select'')\<lparr>default := JStr ''user''\<rparr>,
      fieldOf ''subscribe'' ''boolean''] ''role'' = Some (JStr ''user'')"
proof -
  let ?fs = "[fieldOf ''username'' ''string'',
      (fieldOf ''role'' ''select'')\<lparr>default := JStr ''user''\<rparr>,
      fieldOf ''subscribe'' ''boolean'']"
  have d: "distinct (map name ?fs)" by (simp add: fieldOf_def)
  from buildInitialValues_entry [of "fieldOf ''subscribe'' ''boolean''" ?fs, THEN conjunct1] d
  have 1: "buildInitialValues ?fs ''subscribe'' = Some (JBool False)"
    by (simp add: fieldOf_def)
  from buildInitialValues_entry
    [of "(fieldOf ''role'' ''select'')\<lparr>default := JStr ''user''\<rparr>" ?fs, THEN conjunct1] d
  have 2: "buildInitialValues ?fs ''role'' = Some (JStr ''user'')"
    by (simp add: fieldOf_def)
  from 1 2 show ?thesis by (rule conjI)
qed

text \<open>The field list \<open>[{ name: '__proto__', type: 'string' }]\<close> names a field,
  and the initial values are the empty object.\<close>

lemma no_entry_for_proto_field:
  "buildInitialValues [fieldOf ''__proto__'' ''string''] ''__proto__'' = None"
  by (simp add: buildInitialValues_def fieldOf_def assignProp_def)

subsection \<open>The hand-written validator, field by field\<close>

lemmas rule_defs = rulesInSpecOrder_def requiredRule_def typeRule_def formatRule_def
    minLengthRule_def rangeRule_def belowMinimum_def aboveMaximum_def

lemma assignProp_twice: "assignProp (assignProp obj k a) k b = assignProp obj k b"
  by (simp add: assignProp_def)

lemma vf_required:
  "required f \<and> missing (lookup formValues (name f)) \<Longrightarrow>
   validateField S N formValues f errs =
     (case firstViolated (rulesInSpecOrder S N f (lookup formValues (name f))) of
        None \<Rightarrow> errs
      | Some m \<Rightarrow> assignProp errs (name f) m)"
  by (simp add: validateField_def rulesInSpecOrder_def requiredRule_def)

lemma vf_absent:
  assumes v: "lookup formValues (name f) = v"
    and nr: "\<not> (required f \<and> missing v)" and np: "\<not> present v"
  shows "validateField S N formValues f errs = errs"
    and "firstViolated (rulesInSpecOrder S N f v) = None"
proof -
  from np have e: "(v \<noteq> Undefined \<and> v \<noteq> Null \<and> v \<noteq> JStr []) = False"
    by (simp add: present_def)
  from nr have r: "(required f \<and> missing v) = False" by simp
  show "validateField S N formValues f errs = errs"
    by (simp only: validateField_def v Let_def r e if_False)
  show "firstViolated (rulesInSpecOrder S N f v) = None"
    using nr np by (simp add: rule_defs)
qed

lemma opt_guard:
  "(x \<noteq> None \<and> P (the x)) = (case x of None \<Rightarrow> False | Some m \<Rightarrow> P m)"
  by (cases x) simp_all

lemma vf_nan:
  assumes v: "lookup formValues (name f) = v"
    and nr: "\<not> (required f \<and> missing v)" and pv: "present v"
    and num: "isNumeric f" and nan: "toNumber S v = NaN"
  shows "validateField S N formValues f errs =
           assignProp errs (name f) (MustBeNumber (labelOrName f))"
    and "firstViolated (rulesInSpecOrder S N f v) = Some (MustBeNumber (labelOrName f))"
proof -
  from pv have e: "(v \<noteq> Undefined \<and> v \<noteq> Null \<and> v \<noteq> JStr []) = True"
    by (simp add: present_def)
  from nr have r: "(required f \<and> missing v) = False" by simp
  from num have t: "(type f = ''number'' \<or> type f = ''integer'') = True"
    by (simp add: isNumeric_def)
  from nan have n: "(toNumber S v = NaN) = True" by simp
  show "validateField S N formValues f errs =
          assignProp errs (name f) (MustBeNumber (labelOrName f))"
    by (simp only: validateField_def v Let_def r e t n if_False if_True)
  show "firstViolated (rulesInSpecOrder S N f v) = Some (MustBeNumber (labelOrName f))"
    using nr pv num nan by (simp add: rule_defs)
qed

lemma vf_range:
  assumes v: "lookup formValues (name f) = v"
    and nr: "\<not> (required f \<and> missing v)" and pv: "present v"
    and num: "isNumeric f" and nan: "toNumber S v \<noteq> NaN"
  shows "validateField S N formValues f errs =
           (case firstViolated (rulesInSpecOrder S N f v) of
              None \<Rightarrow> errs | Some m \<Rightarrow> assignProp errs (name f) m)"
proof -
  define a where "a = (case minimum f of None \<Rightarrow> False | Some m \<Rightarrow> js_lt (toNumber S v) m)"
  define b where "b = (case maximum f of None \<Rightarrow> False | Some m \<Rightarrow> js_gt (toNumber S v) m)"
  define A where "A = MustBeAtLeast (labelOrName f) (numProp (minimum f))"
  define B where "B = MustBeAtMost (labelOrName f) (numProp (maximum f))"
  from pv have e: "(v \<noteq> Undefined \<and> v \<noteq> Null \<and> v \<noteq> JStr []) = True"
    by (simp add: present_def)
  from nr have r: "(required f \<and> missing v) = False" by simp
  from num have t: "(type f = ''number'' \<or> type f = ''integer'') = True"
    by (simp add: isNumeric_def)
  from nan have n: "(toNumber S v = NaN) = False" by simp
  have ga: "(minimum f \<noteq> None \<and> js_lt (toNumber S v) (the (minimum f))) = a"
    unfolding a_def by (rule opt_guard)
  have gb: "(maximum f \<noteq> None \<and> js_gt (toNumber S v) (the (maximum f))) = b"
    unfolding b_def by (rule opt_guard)
  have L: "validateField S N formValues f errs =
      (if b then assignProp (if a then assignProp errs (name f) A else errs) (name f) B
       else (if a then assignProp errs (name f) A else errs))"
    by (simp only: validateField_def v Let_def r e t n ga gb if_False if_True A_def B_def)
  have R: "firstViolated (rulesInSpecOrder S N f v) =
      (if b then Some B else if a then Some A else None)"
    using nr pv num nan by (simp add: rule_defs a_def b_def A_def B_def)
  show ?thesis unfolding L R by (cases a; cases b) (simp_all add: assignProp_twice)
qed

lemma vf_text:
  assumes v: "lookup formValues (name f) = v"
    and nr: "\<not> (required f \<and> missing v)" and pv: "present v"
    and num: "\<not> isNumeric f"
  shows "validateField S N formValues f errs =
           (case firstViolated (rulesInSpecOrder S N f v) of
              None \<Rightarrow> errs | Some m \<Rightarrow> assignProp errs (name f) m)"
proof -
  define a where "a = (case minLength f of None \<Rightarrow> False
      | Some m \<Rightarrow> js_lt (Fin (real (length (toString N v)))) m)"
  define b where "b = (format f = Some ''email'' \<and> \<not> emailRegex (toString N v))"
  define A where "A = MinCharacters (labelOrName f) (numProp (minLength f))"
  define B where "B = ValidFormat (labelOrName f) (JStr ''email'')"
  from pv have e: "(v \<noteq> Undefined \<and> v \<noteq> Null \<and> v \<noteq> JStr []) = True"
    by (simp add: present_def)
  from nr have r: "(required f \<and> missing v) = False" by simp
  from num have t: "(type f = ''number'' \<or> type f = ''integer'') = False"
    by (simp add: isNumeric_def)
  have ga: "(minLength f \<noteq> None \<and>
      js_lt (Fin (real (length (toString N v)))) (the (minLength f))) = a"
    unfolding a_def by (rule opt_guard)
  have L: "validateField S N formValues f errs =
      (if b then assignProp (if a then assignProp errs (name f) A else errs) (name f) B
       else (if a then assignProp errs (name f) A else errs))"
    by (simp only: validateField_def v Let_def r e t ga if_False if_True A_def B_def b_def)
  have R: "firstViolated (rulesInSpecOrder S N f v) =
      (if b then Some B else if a then Some A else None)"
    using nr pv num by (auto simp: rule_defs a_def b_def A_def B_def)
  show ?thesis unfolding L R by (cases a; cases b) (simp_all add: assignProp_twice)
qed

lemma validateField_firstViolated:
  "validateField S N formValues f errs =
     (case firstViolated (rulesInSpecOrder S N f (lookup formValues (name f))) of
        None \<Rightarrow> errs
      | Some m \<Rightarrow> assignProp errs (name f) m)"
proof -
  define v where "v = lookup formValues (name f)"
  then have v: "lookup formValues (name f) = v" by simp
  have "validateField S N formValues f errs =
     (case firstViolated (rulesInSpecOrder S N f v) of
        None \<Rightarrow> errs
      | Some m \<Rightarrow> assignProp errs (name f) m)"
  proof (cases "required f \<and> missing v")
    case True
    then have "required f \<and> missing (lookup formValues (name f))" by (simp only: v)
    from vf_required [OF this, of S N errs] show ?thesis by (simp only: v)
  next
    case nr: False
    show ?thesis
    proof (cases "present v")
      case False
      from vf_absent [OF v nr False] show ?thesis by simp
    next
      case pv: True
      show ?thesis
      proof (cases "isNumeric f")
        case num: True
        show ?thesis
        proof (cases "toNumber S v = NaN")
          case True
          from vf_nan [OF v nr pv num True] show ?thesis by simp
        next
          case False
          from vf_range [OF v nr pv num False] show ?thesis .
        qed
      next
        case False
        from vf_text [OF v nr pv False] show ?thesis .
      qed
    qed
  qed
  then show ?thesis by (simp only: v)
qed

lemma validateField_other:
  "n \<noteq> name f \<Longrightarrow> validateField S N formValues f errs n = errs n"
  by (simp add: validateField_firstViolated assignProp_apply split: option.split)


lemma validateField_keeps:
  "errs n \<noteq> None \<Longrightarrow> validateField S N formValues f errs n \<noteq> None"
  by (simp add: validateField_firstViolated assignProp_apply split: option.split)

lemma validateFormValues_loop_other:
  "n \<notin> name ` set fs \<Longrightarrow> validateFormValues_loop S N formValues fs errs n = errs n"
  by (induction fs arbitrary: errs) (simp_all add: validateField_other)


lemma validateFormValues_loop_keeps:
  "errs n \<noteq> None \<Longrightarrow> validateFormValues_loop S N formValues fs errs n \<noteq> None"
proof (induction fs arbitrary: errs)
  case Nil
  then show ?case by simp
next
  case (Cons g gs)
  from validateField_keeps [where errs = errs and n = n, OF Cons.prems]
  have "validateField S N formValues g errs n \<noteq> None" .
  from Cons.IH [of "validateField S N formValues g errs", OF this] show ?case by simp
qed

lemma validateField_required:
  assumes "required f" and "missing (lookup formValues (name f))" and "name f \<noteq> ''__proto__''"
  shows "validateField S N formValues f errs (name f) = Some (IsRequired (JStr (labelOrName f)))"
  using assms
  by (simp add: validateField_firstViolated rulesInSpecOrder_def requiredRule_def assignProp_apply)

lemma validateFormValues_loop_required:
  assumes "f \<in> set fs" and "required f" and "missing (lookup formValues (name f))"
    and "name f \<noteq> ''__proto__''"
  shows "validateFormValues_loop S N formValues fs errs (name f) \<noteq> None"
  using assms(1)
proof (induction fs arbitrary: errs)
  case Nil
  then show ?case by simp
next
  case (Cons g gs)
  show ?case
  proof (cases "f = g")
    case True
    have "validateField S N formValues g errs (name f) \<noteq> None"
      using validateField_required [OF assms(2,3,4), of S N errs] True by simp
    then show ?thesis by (simp add: validateFormValues_loop_keeps)
  next
    case False
    with Cons.prems have "f \<in> set gs" by simp
    then show ?thesis using Cons.IH by simp
  qed
qed

lemma validateFormValues_loop_find:
  "distinct (map name fs) \<Longrightarrow> n \<noteq> ''__proto__'' \<Longrightarrow>
   validateFormValues_loop S N formValues fs errs n =
     (case find (\<lambda>f. name f = n) fs of
        None \<Rightarrow> errs n
      | Some f \<Rightarrow>
          (case firstViolated (rulesInSpecOrder S N f (lookup formValues n)) of
             None \<Rightarrow> errs n
           | Some m \<Rightarrow> Some m))"
proof (induction fs arbitrary: errs)
  case Nil
  then show ?case by simp
next
  case (Cons g gs)
  show ?case
  proof (cases "name g = n")
    case True
    with Cons.prems have "n \<notin> name ` set gs" by auto
    then have "validateFormValues_loop S N formValues (g # gs) errs n =
        validateField S N formValues g errs n"
      by (simp add: validateFormValues_loop_other)
    also have "\<dots> = (case firstViolated (rulesInSpecOrder S N g (lookup formValues n)) of
             None \<Rightarrow> errs n | Some m \<Rightarrow> Some m)"
      using True Cons.prems(2)
      by (simp add: validateField_firstViolated assignProp_apply split: option.split)
    finally show ?thesis using True by simp
  next
    case False
    from Cons.prems have "distinct (map name gs)" by simp
    note IH = Cons.IH [OF this Cons.prems(2), of "validateField S N formValues g errs"]
    from False have "n \<noteq> name g" by auto
    then have "validateField S N formValues g errs n = errs n"
      by (rule validateField_other)
    with IH False show ?thesis by (simp split: option.split)
  qed
qed

lemma find_by_name:
  "distinct (map name fs) \<Longrightarrow> f \<in> set fs \<Longrightarrow> find (\<lambda>g. name g = name f) fs = Some f"
proof (induction fs)
  case Nil
  then show ?case by simp
next
  case (Cons g gs)
  show ?case
  proof (cases "f = g")
    case True
    then show ?thesis by simp
  next
    case False
    with Cons.prems have "f \<in> set gs" "name g \<noteq> name f" by auto
    with Cons show ?thesis by simp
  qed
qed

subsection \<open>The adapter, error by error\<close>




text \<open>The field of an error and its message, keyword by keyword.\<close>

lemma errorField_examples:
  "errorField \<lparr>instancePath = ''/age'', keyword = ''minimum'', params = [(''limit'', JNum (Fin 18))],
     err_message = None\<rparr> = JStr ''age''"
  "errorField \<lparr>instancePath = [], keyword = ''required'',
     params = [(''missingProperty'', JStr ''email'')], err_message = None\<rparr> = JStr ''email''"
  "errorField \<lparr>instancePath = [], keyword = ''type'', params = [], err_message = None\<rparr> =
     Undefined"
  by (simp_all add: errorField_def stripLeadingSlash_def)

lemma formatErrorMessage_examples:
  "formatErrorMessage \<lparr>instancePath = [], keyword = ''required'',
     params = [(''missingProperty'', JStr ''username'')], err_message = None\<rparr> scenarioFields =
     IsRequired (JStr ''username'')"
  "formatErrorMessage \<lparr>instancePath = ''/username'', keyword = ''minLength'',
     params = [(''limit'', JNum (Fin 3))], err_message = None\<rparr> scenarioFields =
     MinCharacters ''Username'' (JNum (Fin 3))"
  "formatErrorMessage \<lparr>instancePath = ''/username'', keyword = ''format'',
     params = [(''format'', JStr ''email'')], err_message = None\<rparr> scenarioFields =
     ValidFormat ''Username'' (JStr ''email'')"
  "formatErrorMessage \<lparr>instancePath = ''/age'', keyword = ''minimum'',
     params = [(''limit'', JNum (Fin 18))], err_message = None\<rparr> scenarioFields =
     MustBeAtLeast ''/age'' (JNum (Fin 18))"
  "formatErrorMessage \<lparr>instancePath = ''/age'', keyword = ''maximum'',
     params = [(''limit'', JNum (Fin 120))], err_message = None\<rparr> scenarioFields =
     MustBeAtMost ''/age'' (JNum (Fin 120))"
  "formatErrorMessage \<lparr>instancePath = ''/username'', keyword = ''enum'', params = [],
     err_message = None\<rparr> scenarioFields = OneOfAllowed ''Username''"
  "formatErrorMessage \<lparr>instancePath = ''/username'', keyword = ''type'', params = [],
     err_message = Some ''must be string''\<rparr> scenarioFields = Plain ''must be string''"
  "formatErrorMessage \<lparr>instancePath = ''/username'', keyword = ''type'', params = [],
     err_message = None\<rparr> scenarioFields = Plain ''Invalid value''"
  by (simp_all add: formatErrorMessage_def stripLeadingSlash_def scenarioFields_def fieldOf_def
      truthyStrOpt_def)

subsection \<open>C5: one message per field, and which one\<close>

lemma validateWithAJV_outcome:
  assumes "formJsonToValidationSchema formJson = Inr schema" and "engine schema = Inr validate"
    and "validate formValues = (valid, errs)"
  shows "validateWithAJV engine formValues formJson =
           Inr (if valid then Map.empty
                else mapErrors formJson (case errs of None \<Rightarrow> [] | Some es \<Rightarrow> es) Map.empty)"
  using assms by (simp add: validateWithAJV_def)




subsection \<open>C2: a required field without a value\<close>

text \<open>What \<open>validateFormValues\<close> does for a required field: it reports the field
  whenever \<open>formValues[name]\<close> is \<open>undefined\<close>, \<open>null\<close> or a string that is empty
  after trimming, provided \<open>errors[name] = ...\<close> creates an entry.\<close>

lemma validateFormValues_reports_missing:
  assumes "f \<in> set formJson" and "required f" and "name f \<noteq> ''__proto__''"
    and "missing (lookup formValues (name f))"
  shows "validateFormValues S N formValues formJson (name f) \<noteq> None"
    and "distinct (map name formJson) \<Longrightarrow>
           validateFormValues S N formValues formJson (name f) =
             Some (IsRequired (JStr (labelOrName f)))"
proof -
  from validateFormValues_loop_required [OF assms(1,2,4,3)]
  show "validateFormValues S N formValues formJson (name f) \<noteq> None"
    by (simp add: validateFormValues_def)
  assume d: "distinct (map name formJson)"
  from assms(2,4)
  have "firstViolated (rulesInSpecOrder S N f (lookup formValues (name f))) =
      Some (IsRequired (JStr (labelOrName f)))"
    by (simp add: rulesInSpecOrder_def requiredRule_def)
  then show "validateFormValues S N formValues formJson (name f) =
      Some (IsRequired (JStr (labelOrName f)))"
    by (simp add: validateFormValues_def validateFormValues_loop_find [OF d assms(3)]
        find_by_name [OF d assms(1)])
qed

text \<open>A key that is missing from the value map is missing for the validator unless
  the name is inherited from \<open>Object.prototype\<close>.\<close>

lemma missing_key:
  "formValues k = None \<Longrightarrow> k \<notin> set objectPrototypeNames \<Longrightarrow> missing (lookup formValues k)"
proof -
  assume k: "formValues k = None" and "k \<notin> set objectPrototypeNames"
  then have "k \<noteq> ''__proto__''" and "k \<noteq> ''constructor''"
    by (auto simp: objectPrototypeNames_def)
  then have "inherited k = Undefined"
    using \<open>k \<notin> set objectPrototypeNames\<close> by (simp add: inherited_def)
  with k show ?thesis by (simp add: lookup_def missing_def)
qed

lemma required_field_named_constructor_not_reported:
  "validateFormValues S N Map.empty [(fieldOf ''constructor'' ''string'')\<lparr>required := True\<rparr>]
     ''constructor'' = None"
  by (simp add: validateFormValues_def validateField_def fieldOf_def lookup_def inherited_def
      objectPrototypeNames_def missing_def)

text \<open>
  C2 says that \<open>validate\<close> returns an entry for a required field whenever its value is
  absent, \<open>null\<close>, or a string that is empty or all white space. \<open>validateFormValues\<close>
  does; \<open>validateWithAJV\<close> does not when the value is such a string. The schema it
  compiles lists the name of a required field under \<open>required\<close>, which asks for the
  key and nothing else, so the engine accepts the value map; and whenever the engine
  accepts, the adapter returns the empty outcome. For a required field \<open>f\<close> of a list
  with unique names and a blank string as its value, the outcome of
  \<open>validateFormValues\<close> holds the "is required" message of \<open>f\<close>, and the outcome
  of \<open>validateWithAJV\<close>, with an engine that accepts the value map, is empty.
\<close>

theorem required_blank_string_passes_adapter:
  assumes "f \<in> set formJson" and "required f" and "distinct (map name formJson)"
    and "name f \<noteq> ''__proto__''"
    and "formValues (name f) = Some (JStr s)" and "trim s = []"
    and "formJsonToValidationSchema formJson = Inr schema"
    and "engine schema = Inr validate"
    and "fst (validate formValues)"
  shows "validateFormValues S N formValues formJson (name f) =
           Some (IsRequired (JStr (labelOrName f))) \<and>
         validateWithAJV engine formValues formJson = Inr Map.empty"
proof (rule conjI)
  from assms(5,6) have m: "missing (lookup formValues (name f))"
    by (simp add: lookup_def missing_def)
  from validateFormValues_reports_missing(2) [OF assms(1,2,4) m assms(3)]
  show "validateFormValues S N formValues formJson (name f) =
          Some (IsRequired (JStr (labelOrName f)))" .
  obtain valid errs where v: "validate formValues = (valid, errs)"
    by (cases "validate formValues")
  with assms(9) have "valid" by simp
  with validateWithAJV_outcome
    [where engine = engine and validate = validate and formValues = formValues,
     OF assms(7,8) v]
  show "validateWithAJV engine formValues formJson = Inr Map.empty" by simp
qed

text \<open>The theorem of C2 at the required field \<open>username\<close> holding two spaces: the
  compiled schema has the keywords \<open>title\<close>, \<open>type\<close> and \<open>required\<close> only, the
  engine accepts, and the adapter reports nothing.\<close>

theorem required_blank_string_passes_adapter_witness:
  "formJsonToValidationSchema
     [(fieldOf ''username'' ''string'')\<lparr>label := Some ''Username'', required := True\<rparr>] =
     Inr \<lparr>schema_type = ''object'',
          properties = [''username'' \<mapsto>
            emptyProp\<lparr>p_title := Some ''Username'', p_type := Some ''string''\<rparr>],
          required_names = [''username'']\<rparr> \<and>
   validateFormValues anyStringToNumber anyNumberToString [''username'' \<mapsto> JStr ''  '']
     [(fieldOf ''username'' ''string'')\<lparr>label := Some ''Username'', required := True\<rparr>]
     ''username'' = Some (IsRequired (JStr ''Username'')) \<and>
   validateWithAJV usernameEngine [''username'' \<mapsto> JStr ''  '']
     [(fieldOf ''username'' ''string'')\<lparr>label := Some ''Username'', required := True\<rparr>] =
     Inr Map.empty"
proof -
  let ?f = "(fieldOf ''username'' ''string'')\<lparr>label := Some ''Username'', required := True\<rparr>"
  let ?s = "\<lparr>schema_type = ''object'',
          properties = [''username'' \<mapsto>
            emptyProp\<lparr>p_title := Some ''Username'', p_type := Some ''string''\<rparr>],
          required_names = [''username'']\<rparr>"
  let ?v = "[''username'' \<mapsto> JStr ''  '']"
  have n: "name ?f = ''username''" and l: "labelOrName ?f = ''Username''"
    by (simp_all add: fieldOf_def labelOrName_def)
  have 1: "?f \<in> set [?f]" and 2: "required ?f" and 3: "distinct (map name [?f])"
    by simp_all
  have 4: "name ?f \<noteq> ''__proto__''" by (simp add: n)
  have 5: "?v (name ?f) = Some (JStr ''  '')" by (simp add: n)
  have 6: "trim ''  '' = []" by (simp add: trim_def isSpace_def)
  have 7: "formJsonToValidationSchema [?f] = Inr ?s"
    by (simp add: formJsonToValidationSchema_def validationSchemaProp_def fieldOf_def
        truthyStrOpt_def truthyNumOpt_def emptyProp_def)
  obtain validate where 8: "usernameEngine ?s = Inr validate" and 9: "fst (validate ?v)"
    by (simp add: usernameEngine_def emptyProp_def)
  from required_blank_string_passes_adapter
    [where f = ?f and formJson = "[?f]" and formValues = ?v and s = "''  ''" and schema = ?s
       and engine = usernameEngine and validate = validate and S = anyStringToNumber
       and N = anyNumberToString, OF 1 2 3 4 5 6 7 8 9]
  have "validateFormValues anyStringToNumber anyNumberToString ?v [?f] ''username'' =
          Some (IsRequired (JStr ''Username'')) \<and>
        validateWithAJV usernameEngine ?v [?f] = Inr Map.empty"
    by (simp add: n l)
  with 7 show ?thesis by (rule conjI)
qed

subsection \<open>The hand-written validator on the scenarios of the specification\<close>

text \<open>The regular expression of the e-mail format on a few strings, scenario A, and
  the three values of scenario D.\<close>

lemma emailRegex_examples:
  "emailRegex ''jsmith@example.com''" "\<not> emailRegex ''bad-email''"
  "\<not> emailRegex ''a@b''" "\<not> emailRegex ''a@.c''" "\<not> emailRegex ''a b@c.d''"
  "\<not> emailRegex ''a@b@c.d''" "emailRegex ''a@b.c.d''"
  by (simp_all add: emailRegex_def isSpace_def)

lemma scenario_A_validateFormValues:
  "validateFormValues anyStringToNumber anyNumberToString [''username'' \<mapsto> JStr ''ab'']
     scenarioFields ''username'' = Some (MinCharacters ''Username'' (JNum (Fin 3)))"
  by (simp add: validateFormValues_def validateField_def scenarioFields_def fieldOf_def
      lookup_def missing_def trim_def isSpace_def labelOrName_def numProp_def assignProp_def)

lemma scenario_D_validateFormValues:
  "validateFormValues anyStringToNumber anyNumberToString [''age'' \<mapsto> JNum (Fin 15)]
     [(fieldOf ''age'' ''integer'')\<lparr>label := Some ''Age'', minimum := Some (Fin 18),
        maximum := Some (Fin 120)\<rparr>] ''age'' = Some (MustBeAtLeast ''Age'' (JNum (Fin 18)))"
  "validateFormValues anyStringToNumber anyNumberToString [''age'' \<mapsto> JNum (Fin 200)]
     [(fieldOf ''age'' ''integer'')\<lparr>label := Some ''Age'', minimum := Some (Fin 18),
        maximum := Some (Fin 120)\<rparr>] ''age'' = Some (MustBeAtMost ''Age'' (JNum (Fin 120)))"
  "validateFormValues anyStringToNumber anyNumberToString [''age'' \<mapsto> JNum (Fin 30)]
     [(fieldOf ''age'' ''integer'')\<lparr>label := Some ''Age'', minimum := Some (Fin 18),
        maximum := Some (Fin 120)\<rparr>] ''age'' = None"
  by (simp_all add: validateFormValues_def validateField_def fieldOf_def
      lookup_def missing_def labelOrName_def numProp_def js_gt_def assignProp_def)

subsection \<open>The form machine\<close>

lemma resolveAlways_stable:
  "s \<noteq> Validating \<Longrightarrow> resolveAlways engine formJson s ctx ev = Inr (s, ctx)"
  by (cases s) (simp_all add: resolveAlways.simps)

lemma resolveAlways_Validating:
  "resolveAlways engine formJson Validating ctx ev =
     (if errors ctx = Map.empty then Inr (Submitting, ctx\<lparr>submitting := True\<rparr>)
      else Inr (Editing, ctx\<lparr>serverError := Null\<rparr>))"
  by (simp add: resolveAlways.simps [of _ _ Validating] resolveAlways_stable)

text \<open>
  C7. In \<open>submitting\<close> a \<open>CHANGE\<close> event is not processed: the state has no
  \<open>CHANGE\<close> transition, so the state and the whole context (form values and errors
  included) are what they were.
\<close>

theorem change_ignored_while_submitting:
  "transition engine formJson (Submitting, ctx) (CHANGE n v) = Inr (Submitting, ctx) \<and>
   send engine formJson (Submitting, ctx) (CHANGE n v) = (Submitting, ctx)"
  by (simp add: send_def transition_def)

text \<open>
  C9. In \<open>editing\<close>, \<open>CHANGE(name, value)\<close> stays in \<open>editing\<close>, sets
  \<open>form[name]\<close> to the value and deletes the error entry of that name; the entries of
  all other names and the fields \<open>submitting\<close>, \<open>result\<close> and \<open>serverError\<close> are
  unchanged (the transition has no target, so no entry action runs).
\<close>

theorem change_in_editing:
  "transition engine formJson (Editing, ctx) (CHANGE n v) =
     Inr (Editing, ctx\<lparr>form := (form ctx)(n \<mapsto> v), errors := (errors ctx)(n := None)\<rparr>) \<and>
   (\<forall>s' ctx'. send engine formJson (Editing, ctx) (CHANGE n v) = (s', ctx') \<longrightarrow>
      s' = Editing \<and> form ctx' n = Some v \<and> errors ctx' n = None \<and>
      (\<forall>m. m \<noteq> n \<longrightarrow> errors ctx' m = errors ctx m \<and> form ctx' m = form ctx m) \<and>
      submitting ctx' = submitting ctx \<and> result ctx' = result ctx \<and>
      serverError ctx' = serverError ctx)"
proof -
  have T: "transition engine formJson (Editing, ctx) (CHANGE n v) =
     Inr (Editing, ctx\<lparr>form := (form ctx)(n \<mapsto> v), errors := (errors ctx)(n := None)\<rparr>)"
    by (simp add: transition_def takeTransition_def resolveAlways_stable)
  have S: "send engine formJson (Editing, ctx) (CHANGE n v) =
     (Editing, ctx\<lparr>form := (form ctx)(n \<mapsto> v), errors := (errors ctx)(n := None)\<rparr>)"
    by (simp add: send_def T)
  show ?thesis unfolding S using T by simp
qed

text \<open>
  C1 says that a rejection of the submit handler leaves the machine in \<open>editing\<close> with
  \<open>serverError\<close> set to the message of the rejection and \<open>submitting = false\<close>. The
  code reaches \<open>editing\<close> with \<open>submitting = false\<close>, but with \<open>serverError\<close>
  \<open>null\<close>, whatever the payload: \<open>assignServerError\<close> stores the message, and the
  entry action \<open>clearServerError\<close> of \<open>editing\<close>, which runs after the actions of
  the transition, erases it.
\<close>

theorem rejection_message_cleared_on_entry:
  "transition engine formJson (Submitting, ctx) (ErrorPlatform d) =
     Inr (Editing, ctx\<lparr>submitting := False, serverError := Null\<rparr>) \<and>
   fst (send engine formJson (Submitting, ctx) (ErrorPlatform d)) = Editing \<and>
   serverError (snd (send engine formJson (Submitting, ctx) (ErrorPlatform d))) = Null \<and>
   submitting (snd (send engine formJson (Submitting, ctx) (ErrorPlatform d))) = False"
proof -
  have T: "transition engine formJson (Submitting, ctx) (ErrorPlatform d) =
     Inr (Editing, ctx\<lparr>submitting := False, serverError := Null\<rparr>)"
    by (simp add: transition_def takeTransition_def resolveAlways_stable)
  then show ?thesis by (simp add: send_def)
qed

text \<open>
  C6. From \<open>editing\<close>, \<open>SUBMIT\<close> leaves the machine in \<open>submitting\<close> when the
  validation outcome is empty and in \<open>editing\<close> otherwise, never in another state;
  \<open>validating\<close> is left within the same call. When the validator returns an outcome,
  it is stored as \<open>errors\<close>; when the validator throws, the exception leaves the call
  and the machine is still in \<open>editing\<close>.
\<close>

theorem submit_reaches_submitting_or_editing:
  "fst (send engine formJson (Editing, ctx) SUBMIT) =
     (if validateWithAJV engine (form ctx) formJson = Inr Map.empty then Submitting else Editing) \<and>
   transition engine formJson (Editing, ctx) SUBMIT =
     (case validateWithAJV engine (form ctx) formJson of
        Inl e \<Rightarrow> Inl e
      | Inr errs \<Rightarrow>
          if errs = Map.empty
          then Inr (Submitting, ctx\<lparr>errors := errs, submitting := True\<rparr>)
          else Inr (Editing, ctx\<lparr>errors := errs, serverError := Null\<rparr>))"
proof -
  have T: "transition engine formJson (Editing, ctx) SUBMIT =
     (case validateWithAJV engine (form ctx) formJson of
        Inl e \<Rightarrow> Inl e
      | Inr errs \<Rightarrow>
          if errs = Map.empty
          then Inr (Submitting, ctx\<lparr>errors := errs, submitting := True\<rparr>)
          else Inr (Editing, ctx\<lparr>errors := errs, serverError := Null\<rparr>))"
    by (simp add: transition_def takeTransition_def resolveAlways_Validating split: sum.split)
  have "fst (send engine formJson (Editing, ctx) SUBMIT) =
     (if validateWithAJV engine (form ctx) formJson = Inr Map.empty then Submitting else Editing)"
    unfolding send_def T by (simp split: sum.split)
  with T show ?thesis by (rule conjI [rotated])
qed


subsection \<open>The machine on the scenarios of the specification\<close>

lemma scenario_rejected:
  "validateWithAJV usernameEngine [''username'' \<mapsto> JStr ''ab''] scenarioFields =
     Inr [''username'' \<mapsto> MinCharacters ''Username'' (JNum (Fin 3))]"
  by (simp add: validateWithAJV_def formJsonToValidationSchema_def validationSchemaProp_def
      scenarioFields_def usernameEngine_def fieldOf_def errorField_def
      stripLeadingSlash_def formatErrorMessage_def truthyStrOpt_def truthyNumOpt_def
      objectPrototypeNames_def assignProp_def)

lemma scenario_accepted:
  "validateWithAJV usernameEngine [''username'' \<mapsto> JStr ''abcd''] scenarioFields = Inr Map.empty"
  by (simp add: validateWithAJV_def formJsonToValidationSchema_def validationSchemaProp_def
      scenarioFields_def usernameEngine_def fieldOf_def truthyStrOpt_def
      truthyNumOpt_def)

text \<open>The theorem of C6 on scenarios A and B: the user name \<open>ab\<close> returns to
  \<open>editing\<close>, the user name \<open>abcd\<close> goes on to \<open>submitting\<close>.\<close>

theorem submit_reaches_submitting_or_editing_witness:
  "fst (send usernameEngine scenarioFields
          (Editing, (initialContext scenarioFields)\<lparr>form := [''username'' \<mapsto> JStr ''ab'']\<rparr>)
          SUBMIT) = Editing \<and>
   fst (send usernameEngine scenarioFields
          (Editing, (initialContext scenarioFields)\<lparr>form := [''username'' \<mapsto> JStr ''abcd'']\<rparr>)
          SUBMIT) = Submitting"
proof -
  have ne: "Inr [''username'' \<mapsto> MinCharacters ''Username'' (JNum (Fin 3))] \<noteq>
      (Inr Map.empty :: error + (string \<rightharpoonup> message))"
    by simp
  from submit_reaches_submitting_or_editing [of usernameEngine scenarioFields
      "(initialContext scenarioFields)\<lparr>form := [''username'' \<mapsto> JStr ''ab'']\<rparr>", THEN conjunct1]
  have A: "fst (send usernameEngine scenarioFields
          (Editing, (initialContext scenarioFields)\<lparr>form := [''username'' \<mapsto> JStr ''ab'']\<rparr>)
          SUBMIT) = Editing"
    using ne by (simp add: scenario_rejected)
  from submit_reaches_submitting_or_editing [of usernameEngine scenarioFields
      "(initialContext scenarioFields)\<lparr>form := [''username'' \<mapsto> JStr ''abcd'']\<rparr>", THEN conjunct1]
  have B: "fst (send usernameEngine scenarioFields
          (Editing, (initialContext scenarioFields)\<lparr>form := [''username'' \<mapsto> JStr ''abcd'']\<rparr>)
          SUBMIT) = Submitting"
    by (simp add: scenario_accepted)
  from A B show ?thesis by (rule conjI)
qed

text \<open>The theorem of C7 on the machine of scenario A.\<close>

theorem change_ignored_while_submitting_witness:
  "send usernameEngine scenarioFields
     (Submitting, (initialContext scenarioFields)\<lparr>submitting := True\<rparr>)
     (CHANGE ''username'' (JStr ''other'')) =
   (Submitting, (initialContext scenarioFields)\<lparr>submitting := True\<rparr>)"
  by (rule change_ignored_while_submitting [THEN conjunct2])

text \<open>The theorem of C9 on a context with errors for two fields: a change of
  \<open>username\<close> removes its error and keeps the one of \<open>email\<close> (scenario E).\<close>

theorem change_in_editing_witness:
  "fst (send usernameEngine scenarioFields
     (Editing, (initialContext scenarioFields)\<lparr>errors :=
        [''username'' \<mapsto> IsRequired (JStr ''Username''),
         ''email'' \<mapsto> ValidFormat ''Email'' (JStr ''email'')]\<rparr>)
     (CHANGE ''username'' (JStr ''bob''))) = Editing \<and>
   errors (snd (send usernameEngine scenarioFields
     (Editing, (initialContext scenarioFields)\<lparr>errors :=
        [''username'' \<mapsto> IsRequired (JStr ''Username''),
         ''email'' \<mapsto> ValidFormat ''Email'' (JStr ''email'')]\<rparr>)
     (CHANGE ''username'' (JStr ''bob'')))) ''username'' = None \<and>
   errors (snd (send usernameEngine scenarioFields
     (Editing, (initialContext scenarioFields)\<lparr>errors :=
        [''username'' \<mapsto> IsRequired (JStr ''Username''),
         ''email'' \<mapsto> ValidFormat ''Email'' (JStr ''email'')]\<rparr>)
     (CHANGE ''username'' (JStr ''bob'')))) ''email'' = Some (ValidFormat ''Email'' (JStr ''email'')) \<and>
   form (snd (send usernameEngine scenarioFields
     (Editing, (initialContext scenarioFields)\<lparr>errors :=
        [''username'' \<mapsto> IsRequired (JStr ''Username''),
         ''email'' \<mapsto> ValidFormat ''Email'' (JStr ''email'')]\<rparr>)
     (CHANGE ''username'' (JStr ''bob'')))) ''username'' = Some (JStr ''bob'')"
  unfolding send_def change_in_editing [THEN conjunct1] by simp

text \<open>Scenario C. The action alone stores the message of the rejection.\<close>

lemma assignServerError_stores_message:
  "exec engine formJson assignServerError
     (ErrorPlatform (JObj [(''message'', JStr ''duplicate username'')])) ctx =
   Inr (ctx\<lparr>serverError := JStr ''duplicate username''\<rparr>)"
  by simp

text \<open>The theorem of C1 on scenario C: after the rejection
  \<open>{ message: 'duplicate username' }\<close> the machine is in \<open>editing\<close> and
  \<open>serverError\<close> is \<open>null\<close>.\<close>

theorem rejection_message_cleared_on_entry_witness:
  "fst (send usernameEngine scenarioFields
     (Submitting, (initialContext scenarioFields)\<lparr>submitting := True\<rparr>)
     (ErrorPlatform (JObj [(''message'', JStr ''duplicate username'')]))) = Editing \<and>
   serverError (snd (send usernameEngine scenarioFields
     (Submitting, (initialContext scenarioFields)\<lparr>submitting := True\<rparr>)
     (ErrorPlatform (JObj [(''message'', JStr ''duplicate username'')])))) = Null"
  unfolding send_def rejection_message_cleared_on_entry [THEN conjunct1] by simp

subsection \<open>C8: the guards named isValid\<close>

text \<open>The guard of \<open>formMachineFactory.js\<close> returns a boolean computed from the stored
  errors alone and has no access to anything it could change.\<close>

lemma isValid_reads_stored_errors:
  "evalGuard isValid ctx = (errors ctx = Map.empty)"
  by simp

text \<open>
  C8 says that evaluating \<open>isValid\<close> leaves the context unchanged and that its result
  is read off the stored error map. The guard of the WebSocket session machine does
  neither: it calls the validator on \<open>formData\<close>, returns the validator's verdict, and
  when the verdict is negative replaces \<open>ctx.errors\<close> by the errors of that call.
\<close>

theorem session_guard_overwrites_errors:
  assumes "validators (formId ctx) = Some validator"
    and "validator (formData ctx) = (False, Some es)"
  shows "isValid_ws validators ctx = Inr (False, ctx\<lparr>errors_ws := storeErrors es Map.empty\<rparr>)"
  using assms by (simp add: isValid_ws_def)

text \<open>The theorem of C8 on a fresh session: the context had no error for
  \<open>username\<close> before the guard ran and has one afterwards.\<close>

theorem session_guard_overwrites_errors_witness:
  "isValid_ws [''createUser'' \<mapsto> rejectingValidator] sessionStart =
     Inr (False, sessionStart\<lparr>errors_ws :=
            [''username'' \<mapsto> JStr ''must have required property username'']\<rparr>) \<and>
   errors_ws sessionStart ''username'' = None"
proof -
  have 1: "[''createUser'' \<mapsto> rejectingValidator] (formId sessionStart) = Some rejectingValidator"
    by (simp add: sessionStart_def)
  have 2: "rejectingValidator (formData sessionStart) =
      (False, Some [\<lparr>instancePath = [], keyword = ''required'',
                     params = [(''missingProperty'', JStr ''username'')],
                     err_message = Some ''must have required property username''\<rparr>])"
    by (simp add: rejectingValidator_def)
  from session_guard_overwrites_errors [where validators = "[''createUser'' \<mapsto> rejectingValidator]"
      and ctx = sessionStart and validator = rejectingValidator, OF 1 2]
  show ?thesis
    by (simp add: errorKey_def removeFirstSlash_def strProp_def sessionStart_def
        assignProp_def)
qed

end
